theory Spec2Isabelle
  imports Complex_Main
begin

section \<open>Numbers and library routines\<close>

text \<open>
  Python floats are modelled as reals and Python ints as integers: a decimal literal such
  as \<open>0.18\<close> denotes the rational number it is written as.  \<open>round(x, n)\<close> rounds to
  \<open>n\<close> decimals, ties going to the even neighbour.
\<close>

definition round_half_even :: "real \<Rightarrow> int" where
  "round_half_even x =
     (let f = \<lfloor>x\<rfloor>; d = x - of_int f
      in if d < 1 / 2 then f else if 1 / 2 < d then f + 1 else if even f then f else f + 1)"

definition py_round :: "real \<Rightarrow> nat \<Rightarrow> real" where
  "py_round x n = of_int (round_half_even (x * 10 ^ n)) / 10 ^ n"

section \<open>Python values\<close>

text \<open>
  The exceptions the modelled code can raise, and the values found in the JSON
  dictionaries the data providers return: null, a number or a string.
\<close>

datatype error = ValueError string | TypeError | LinAlgError

datatype upstream_error = Timeout | RequestFailed

datatype pyval = PNone | PNum real | PStr string

text \<open>\<open>str.lower()\<close> on the ASCII letters.\<close>

definition lower_chr :: "char \<Rightarrow> char" where
  "lower_chr c =
     (case map_of (zip ''ABCDEFGHIJKLMNOPQRSTUVWXYZ'' ''abcdefghijklmnopqrstuvwxyz'') c of
        Some d \<Rightarrow> d
      | None \<Rightarrow> c)"

definition lower :: "string \<Rightarrow> string" where
  "lower s = map lower_chr s"

text \<open>\<open>str(n)\<close> for an integer.\<close>

fun str_nat :: "nat \<Rightarrow> string" where
  "str_nat n =
     (if n < 10 then [''0123456789'' ! n] else str_nat (n div 10) @ [''0123456789'' ! (n mod 10)])"

declare str_nat.simps [simp del]

definition str_int :: "int \<Rightarrow> string" where
  "str_int i = (if i < 0 then CHR ''-'' # str_nat (nat (- i)) else str_nat (nat i))"

text \<open>
  \<open>f"{x:.nf}"\<close>: the sign, then the digits of \<open>|x|\<close> rounded to \<open>n\<close> decimals.
\<close>

definition format_f :: "nat \<Rightarrow> real \<Rightarrow> string" where
  "format_f n x =
     (let k = nat (round_half_even (\<bar>x\<bar> * 10 ^ n));
          ds = str_nat k;
          ds = replicate (Suc n - length ds) CHR ''0'' @ ds;
          whole = take (length ds - n) ds;
          frac = drop (length ds - n) ds
      in (if x < 0 then ''-'' else []) @ whole @ (if n = 0 then [] else CHR ''.'' # frac))"

section \<open>live\_data\_client.py: snapshots\<close>

record LivePlayerStats =
  ps_player_id :: int
  ps_player_name :: string
  ps_team_id :: int
  ps_team_abbreviation :: string
  ps_minutes :: string
  ps_minutes_float :: real
  ps_points :: int
  ps_rebounds :: int
  ps_assists :: int
  ps_steals :: int
  ps_blocks :: int
  ps_turnovers :: int
  ps_fouls :: int
  ps_fg_made :: int
  ps_fg_attempted :: int
  ps_fg_pct :: real
  ps_fg3_made :: int
  ps_fg3_attempted :: int
  ps_fg3_pct :: real
  ps_ft_made :: int
  ps_ft_attempted :: int
  ps_ft_pct :: real
  ps_plus_minus :: int
  ps_starter :: bool

record LiveGameData =
  gd_game_id :: string
  gd_game_status :: int
  gd_game_status_text :: string
  gd_period :: int
  gd_game_clock :: string
  gd_home_team_id :: int
  gd_home_team_name :: string
  gd_home_team_abbr :: string
  gd_home_score :: int
  gd_away_team_id :: int
  gd_away_team_name :: string
  gd_away_team_abbr :: string
  gd_away_score :: int
  gd_game_date :: string
  gd_game_time_utc :: "string option"
  gd_is_halftime :: bool

definition gd_score_differential :: "LiveGameData \<Rightarrow> int" where
  "gd_score_differential g = \<bar>gd_home_score g - gd_away_score g\<bar>"

definition gd_total_score :: "LiveGameData \<Rightarrow> int" where
  "gd_total_score g = gd_home_score g + gd_away_score g"

text \<open>
  Record fields carry a prefix (\<open>ps_\<close>, \<open>gd_\<close>, \<open>tr_\<close>, ...) so that the source's
  names stay free for the parameters and local variables of the functions.
\<close>

text \<open>
  The box score dictionary: the engines read its \<open>home\<close> and \<open>away\<close> player lists.
\<close>

record box_score =
  bs_home :: "LivePlayerStats list"
  bs_away :: "LivePlayerStats list"

subsection \<open>Team ratings (halftime\_engine.py)\<close>

definition LEAGUE_AVG_PACE :: real where "LEAGUE_AVG_PACE = 100.0"
definition LEAGUE_AVG_TOTAL :: real where "LEAGUE_AVG_TOTAL = 225.0"
definition LEAGUE_AVG_OFF_RTG :: real where "LEAGUE_AVG_OFF_RTG = 114.0"
definition LEAGUE_AVG_DEF_RTG :: real where "LEAGUE_AVG_DEF_RTG = 114.0"

record TeamRatings =
  tr_team_id :: int
  tr_team_abbr :: string
  tr_off_rating :: real
  tr_def_rating :: real
  tr_pace :: real
  tr_def_rank_pts :: int
  tr_def_rank_reb :: int
  tr_def_rank_ast :: int
  tr_def_rank_3pm :: int

definition default_TeamRatings :: "int \<Rightarrow> string \<Rightarrow> TeamRatings" where
  "default_TeamRatings tid abbr =
     \<lparr>tr_team_id = tid, tr_team_abbr = abbr, tr_off_rating = LEAGUE_AVG_OFF_RTG,
      tr_def_rating = LEAGUE_AVG_DEF_RTG, tr_pace = LEAGUE_AVG_PACE, tr_def_rank_pts = 15,
      tr_def_rank_reb = 15, tr_def_rank_ast = 15, tr_def_rank_3pm = 15\<rparr>"

definition net_rating :: "TeamRatings \<Rightarrow> real" where
  "net_rating r = tr_off_rating r - tr_def_rating r"

subsection \<open>The data providers\<close>

text \<open>
  Every method of the live-data client is \<open>try: body except Exception: return default\<close>.
  The world gives the outcome of each body: \<open>Inr\<close> the value it computes from the
  provider's answer, \<open>Inl\<close> when the provider fails or times out.

  The team-ratings fetch of the halftime engine reads two tables in turn: the team's row of
  the advanced table (offensive rating, defensive rating and, when the column is there, the
  pace) and its row of the opponent table (the four rank columns, each used when present).
  A row is \<open>None\<close> when the team is not in the table.

  The enhanced totals analysis runs under its own \<open>try\<close>; its outcome (the serialised
  projection, or the exception) is given by the world as well.
\<close>

type_synonym season_stats = "(string \<times> real) list"

record ratings_fetch =
  rf_advanced :: "upstream_error + (real \<times> real \<times> real option) option"
  rf_opponent :: "upstream_error + (int option \<times> int option \<times> int option \<times> int option) option"

record 'e world =
  w_scoreboard :: "upstream_error + LiveGameData list"
  w_boxscore :: "string \<Rightarrow> upstream_error + box_score"
  w_team_ratings :: "int \<Rightarrow> ratings_fetch"
  w_season_stats :: "int \<Rightarrow> upstream_error + season_stats option"
  w_back_to_back :: "int \<Rightarrow> upstream_error + bool"
  w_enhanced_totals ::
    "LiveGameData \<Rightarrow> box_score \<Rightarrow> TeamRatings \<Rightarrow> TeamRatings \<Rightarrow> upstream_error + 'e"
  w_utcnow :: string

definition client_get_todays_games :: "'e world \<Rightarrow> LiveGameData list" where
  "client_get_todays_games w = (case w_scoreboard w of Inr games \<Rightarrow> games | Inl e \<Rightarrow> [])"

definition client_get_live_box_score :: "'e world \<Rightarrow> string \<Rightarrow> box_score" where
  "client_get_live_box_score w game_id =
     (case w_boxscore w game_id of
        Inr box \<Rightarrow> box
      | Inl e \<Rightarrow> \<lparr>bs_home = [], bs_away = []\<rparr>)"

definition client_get_player_season_stats :: "'e world \<Rightarrow> int \<Rightarrow> season_stats option" where
  "client_get_player_season_stats w player_id =
     (case w_season_stats w player_id of Inr stats \<Rightarrow> stats | Inl e \<Rightarrow> None)"

definition client_is_back_to_back :: "'e world \<Rightarrow> int \<Rightarrow> bool" where
  "client_is_back_to_back w team_id =
     (case w_back_to_back w team_id of Inr b \<Rightarrow> b | Inl e \<Rightarrow> False)"

section \<open>halftime\_engine.py: constants and records\<close>

definition BLOWOUT_THRESHOLD :: int where "BLOWOUT_THRESHOLD = 20"
definition FOUL_TROUBLE_THRESHOLD :: int where "FOUL_TROUBLE_THRESHOLD = 3"

definition PROJECTION_WEIGHTS :: "(string \<times> real) list" where
  "PROJECTION_WEIGHTS =
     [(''first_half_trend'', 0.18),
      (''shooting_efficiency'', 0.18),
      (''shot_volume'', 0.15),
      (''opponent_defense'', 0.14),
      (''score_situation'', 0.10),
      (''historical_2h_avg'', 0.08),
      (''pace_adjustment'', 0.07),
      (''plus_minus_factor'', 0.05),
      (''utilization_rate'', 0.03),
      (''fatigue_factor'', 0.02)]"

definition Q3_PACE_FACTOR :: real where "Q3_PACE_FACTOR = 0.92"
definition PACE_SUSTAINABILITY :: real where "PACE_SUSTAINABILITY = 0.95"

record ShootingMetrics =
  sm_fg_pct :: real
  sm_fg3_pct :: real
  sm_ft_pct :: real
  sm_efg_pct :: real
  sm_ts_pct :: real
  sm_points_per_shot :: real

definition efficiency_rating :: "ShootingMetrics \<Rightarrow> string" where
  "efficiency_rating m =
     (if sm_ts_pct m \<ge> 65 then ''elite''
      else if sm_ts_pct m \<ge> 58 then ''excellent''
      else if sm_ts_pct m \<ge> 52 then ''good''
      else if sm_ts_pct m \<ge> 45 then ''average''
      else ''poor'')"

text \<open>The \<open>shooting_metrics\<close> dictionary stored in a player projection.\<close>

record shooting_summary =
  ss_fg_pct :: real
  ss_fg3_pct :: real
  ss_ft_pct :: real
  ss_efg_pct :: real
  ss_ts_pct :: real
  ss_efficiency_rating :: string

record PlayerProjection =
  pp_player_id :: int
  pp_player_name :: string
  pp_team_abbreviation :: string
  pp_prop_type :: string
  pp_prop_line :: real
  pp_first_half_value :: real
  pp_first_half_minutes :: real
  pp_projected_second_half :: real
  pp_projected_final :: real
  pp_confidence_score :: real
  pp_recommendation :: string
  pp_factors :: "(string \<times> real) list"
  pp_foul_trouble :: bool
  pp_blowout_warning :: bool
  pp_pace_factor :: real
  pp_utilization_rate :: real
  pp_fatigue_factor :: real
  pp_minutes_projection :: real
  pp_shooting_metrics :: "shooting_summary option"
  pp_assist_to_turnover :: "real option"
  pp_opponent_def_rank :: "int option"
  pp_opponent_def_rating :: "real option"
  pp_team_off_rating :: "real option"
  pp_season_average :: "real option"
  pp_second_half_historical_avg :: "real option"
  pp_plus_minus :: int
  pp_shooting_efficiency :: "real option"

record GameTotalProjection =
  gt_game_id :: string
  gt_home_team :: string
  gt_away_team :: string
  gt_current_total :: int
  gt_first_half_total :: int
  gt_score_differential :: int
  gt_first_half_pace :: real
  gt_pace_rating :: string
  gt_league_avg_pace_comparison :: real
  gt_projected_second_half_total :: real
  gt_projected_final_total :: real
  gt_projected_q3_total :: real
  gt_projected_q4_total :: real
  gt_total_confidence :: real
  gt_blowout_risk :: bool
  gt_pace_sustainability :: real
  gt_home_off_rating :: "real option"
  gt_home_def_rating :: "real option"
  gt_away_off_rating :: "real option"
  gt_away_def_rating :: "real option"

subsection \<open>Per-player metrics\<close>

definition get_stat_value :: "LivePlayerStats \<Rightarrow> string \<Rightarrow> real" where
  "get_stat_value stats prop_type =
     (let stat_mapping =
        [(''points'', ps_points stats),
         (''rebounds'', ps_rebounds stats),
         (''assists'', ps_assists stats),
         (''steals'', ps_steals stats),
         (''blocks'', ps_blocks stats),
         (''threes'', ps_fg3_made stats),
         (''3pt'', ps_fg3_made stats),
         (''turnovers'', ps_turnovers stats),
         (''pts+reb'', ps_points stats + ps_rebounds stats),
         (''pts+ast'', ps_points stats + ps_assists stats),
         (''reb+ast'', ps_rebounds stats + ps_assists stats),
         (''pts+reb+ast'', ps_points stats + ps_rebounds stats + ps_assists stats)]
      in case map_of stat_mapping (lower prop_type) of
           Some v \<Rightarrow> of_int v
         | None \<Rightarrow> 0)"

definition calculate_shooting_metrics :: "LivePlayerStats \<Rightarrow> ShootingMetrics" where
  "calculate_shooting_metrics stats =
     (let fg_pct = (if ps_fg_attempted stats > 0
                    then of_int (ps_fg_made stats) / of_int (ps_fg_attempted stats) * 100 else 0);
          fg3_pct = (if ps_fg3_attempted stats > 0
                     then of_int (ps_fg3_made stats) / of_int (ps_fg3_attempted stats) * 100 else 0);
          ft_pct = (if ps_ft_attempted stats > 0
                    then of_int (ps_ft_made stats) / of_int (ps_ft_attempted stats) * 100 else 0);
          efg_pct = (if ps_fg_attempted stats > 0
                     then (of_int (ps_fg_made stats) + 0.5 * of_int (ps_fg3_made stats))
                            / of_int (ps_fg_attempted stats) * 100
                     else 0);
          tsa = of_int (ps_fg_attempted stats) + 0.44 * of_int (ps_ft_attempted stats);
          ts_pct = (if tsa > 0 then of_int (ps_points stats) / (2 * tsa) * 100 else 0);
          pps = (if ps_fg_attempted stats > 0
                 then of_int (ps_points stats) / of_int (ps_fg_attempted stats) else 0)
      in \<lparr>sm_fg_pct = py_round fg_pct 1, sm_fg3_pct = py_round fg3_pct 1,
          sm_ft_pct = py_round ft_pct 1, sm_efg_pct = py_round efg_pct 1,
          sm_ts_pct = py_round ts_pct 1, sm_points_per_shot = py_round pps 2\<rparr>)"

definition calculate_assist_to_turnover :: "LivePlayerStats \<Rightarrow> real option" where
  "calculate_assist_to_turnover stats =
     (if ps_turnovers stats = 0
      then (if ps_assists stats > 0 then Some (of_int (ps_assists stats)) else None)
      else Some (py_round (of_int (ps_assists stats) / of_int (ps_turnovers stats)) 2))"

definition calculate_utilization_rate :: "LivePlayerStats \<Rightarrow> LivePlayerStats list \<Rightarrow> real" where
  "calculate_utilization_rate stats team_stats =
     (if team_stats = [] then 0.0
      else
        let team_fga = sum_list (map ps_fg_attempted team_stats);
            team_fta = sum_list (map ps_ft_attempted team_stats);
            team_tov = sum_list (map ps_turnovers team_stats);
            team_possessions = of_int team_fga + 0.44 * of_int team_fta + of_int team_tov
        in if team_possessions = 0 then 0.0
           else
             let player_possessions =
                   of_int (ps_fg_attempted stats) + 0.44 * of_int (ps_ft_attempted stats)
                     + of_int (ps_turnovers stats)
             in (player_possessions / team_possessions) * 100)"

definition calculate_pace_factor :: "LiveGameData \<Rightarrow> real \<Rightarrow> real" where
  "calculate_pace_factor game_data first_half_minutes =
     (let total_score = gd_total_score game_data
      in if first_half_minutes \<le> 0 then 1.0
         else
           let points_per_min = of_int total_score / first_half_minutes;
               expected_ppm = LEAGUE_AVG_TOTAL / 48.0
           in if expected_ppm > 0 then points_per_min / expected_ppm else 1.0)"

definition calculate_plus_minus_factor :: "int \<Rightarrow> real \<Rightarrow> real" where
  "calculate_plus_minus_factor plus_minus minutes =
     (if minutes \<le> 0 then 1.0
      else
        let pm_per_min = of_int plus_minus / minutes;
            factor = 1.0 + (pm_per_min * 0.02)
        in max 0.85 (min 1.15 factor))"

definition get_opponent_def_adjustment :: "int \<Rightarrow> string \<Rightarrow> real" where
  "get_opponent_def_adjustment opponent_def_rank prop_type =
     (if opponent_def_rank \<le> 5 then 0.90
      else if opponent_def_rank \<le> 10 then 0.95
      else if opponent_def_rank \<le> 20 then 1.0
      else if opponent_def_rank \<le> 25 then 1.05
      else 1.10)"

definition get_shooting_efficiency_factor :: "ShootingMetrics \<Rightarrow> string \<Rightarrow> real" where
  "get_shooting_efficiency_factor shooting prop_type =
     (if prop_type = ''points'' then
        (if sm_ts_pct shooting \<ge> 70 then 1.12
         else if sm_ts_pct shooting \<ge> 60 then 1.08
         else if sm_ts_pct shooting \<ge> 55 then 1.04
         else if sm_ts_pct shooting \<ge> 45 then 1.0
         else if sm_ts_pct shooting \<ge> 35 then 0.95
         else 0.90)
      else if prop_type = ''threes'' \<or> prop_type = ''3pt'' then
        (if sm_fg3_pct shooting \<ge> 50 then 1.10
         else if sm_fg3_pct shooting \<ge> 40 then 1.05
         else if sm_fg3_pct shooting \<ge> 33 then 1.0
         else if sm_fg3_pct shooting \<ge> 20 then 0.95
         else 0.90)
      else
        (if sm_ts_pct shooting \<ge> 55 then 1.02 else 1.0))"

subsection \<open>Team ratings, cached per engine instance\<close>

type_synonym ratings_cache = "int \<rightharpoonup> TeamRatings"

definition get_team_ratings ::
  "'e world \<Rightarrow> ratings_cache \<Rightarrow> int \<Rightarrow> string \<Rightarrow> TeamRatings \<times> ratings_cache" where
  "get_team_ratings w cache team_id team_abbr =
     (case cache team_id of
        Some cached \<Rightarrow> (cached, cache)
      | None \<Rightarrow>
          let ratings = default_TeamRatings team_id team_abbr;
              ratings =
                (case rf_advanced (w_team_ratings w team_id) of
                   Inl e \<Rightarrow> ratings
                 | Inr team_row \<Rightarrow>
                     let ratings =
                           (case team_row of
                              None \<Rightarrow> ratings
                            | Some (off, def, pace) \<Rightarrow>
                                ratings\<lparr>tr_off_rating := off, tr_def_rating := def,
                                  tr_pace := (case pace of Some p \<Rightarrow> p | None \<Rightarrow> LEAGUE_AVG_PACE)\<rparr>)
                     in (case rf_opponent (w_team_ratings w team_id) of
                           Inl e \<Rightarrow> ratings
                         | Inr team_def \<Rightarrow>
                             (case team_def of
                                None \<Rightarrow> ratings
                              | Some (pts, reb, ast, fg3) \<Rightarrow>
                                  ratings\<lparr>tr_def_rank_pts := (case pts of Some r \<Rightarrow> r | None \<Rightarrow> 15),
                                    tr_def_rank_reb := (case reb of Some r \<Rightarrow> r | None \<Rightarrow> 15),
                                    tr_def_rank_ast := (case ast of Some r \<Rightarrow> r | None \<Rightarrow> 15),
                                    tr_def_rank_3pm := (case fg3 of Some r \<Rightarrow> r | None \<Rightarrow> 15)\<rparr>)))
          in (ratings, cache(team_id \<mapsto> ratings)))"

subsection \<open>Risk flags and minutes projection\<close>

definition detect_foul_trouble :: "int \<Rightarrow> real \<Rightarrow> bool" where
  "detect_foul_trouble fouls minutes =
     (if fouls \<ge> FOUL_TROUBLE_THRESHOLD then True
      else if minutes > 0 \<and> of_int fouls / minutes > 0.125 then True
      else False)"

definition detect_blowout :: "int \<Rightarrow> bool" where
  "detect_blowout score_diff = (\<bar>score_diff\<bar> \<ge> BLOWOUT_THRESHOLD)"

definition get_fatigue_factor :: "bool \<Rightarrow> int \<Rightarrow> real" where
  "get_fatigue_factor is_back_to_back rest_days =
     (if is_back_to_back then 0.92 else if rest_days \<ge> 3 then 1.02 else 1.0)"

definition calculate_minutes_projection :: "real \<Rightarrow> bool \<Rightarrow> bool \<Rightarrow> bool \<Rightarrow> real" where
  "calculate_minutes_projection first_half_minutes foul_trouble blowout_warning is_starter =
     (let base_projection = first_half_minutes;
          base_projection = (if foul_trouble then base_projection * 0.75 else base_projection);
          base_projection =
            (if blowout_warning
             then (if is_starter then base_projection * 0.70 else base_projection * 1.15)
             else base_projection)
      in min base_projection 24.0)"

definition calculate_shot_volume_factor :: "int \<Rightarrow> int \<Rightarrow> real \<Rightarrow> string \<Rightarrow> real" where
  "calculate_shot_volume_factor fg_attempted ft_attempted minutes prop_type =
     (if minutes \<le> 0 then 1.0
      else
        let total_shots = of_int fg_attempted + (of_int ft_attempted * 0.44);
            shots_per_min = total_shots / minutes
        in if prop_type = ''points'' then
             (if shots_per_min \<ge> 1.0 then 1.15
              else if shots_per_min \<ge> 0.75 then 1.10
              else if shots_per_min \<ge> 0.5 then 1.05
              else if shots_per_min \<ge> 0.3 then 1.0
              else 0.90)
           else
             (if shots_per_min \<ge> 0.75 then 1.05
              else if shots_per_min \<ge> 0.4 then 1.0
              else 0.95))"

subsection \<open>Second-half projection\<close>

text \<open>
  \<open>truthy\<close> is Python's truth value of an \<open>Optional[float]\<close>: \<open>None\<close> and \<open>0.0\<close>
  are false.
\<close>

definition truthy :: "real option \<Rightarrow> bool" where
  "truthy v = (case v of None \<Rightarrow> False | Some x \<Rightarrow> x \<noteq> 0)"

definition or_zero :: "real option \<Rightarrow> real" where
  "or_zero v = (case v of None \<Rightarrow> 0 | Some x \<Rightarrow> x)"

text \<open>
  \<open>components[key]\<close> for a key of the weight table; the ten keys of the table are the
  ten keys the function stores.
\<close>

definition component :: "(string \<times> real) list \<Rightarrow> string \<Rightarrow> real" where
  "component components key = or_zero (map_of components key)"

definition calculate_second_half_projection ::
  "real \<Rightarrow> real \<Rightarrow> real \<Rightarrow> real \<Rightarrow> real \<Rightarrow> real \<Rightarrow> real option \<Rightarrow> bool \<Rightarrow> ShootingMetrics
     \<Rightarrow> int \<Rightarrow> int \<Rightarrow> string \<Rightarrow> int \<Rightarrow> int \<Rightarrow> int \<Rightarrow> real \<times> (string \<times> real) list" where
  "calculate_second_half_projection first_half_value first_half_minutes projected_minutes
     pace_factor utilization_rate fatigue_factor historical_2h_avg blowout_warning
     shooting_metrics plus_minus opponent_def_rank prop_type fg_attempted ft_attempted
     score_differential =
     (if first_half_minutes \<le> 0
      then (if truthy historical_2h_avg then or_zero historical_2h_avg else 0.0, [])
      else
        let first_half_rate = first_half_value / first_half_minutes;
            first_half_trend = first_half_rate * projected_minutes;
            shooting_factor = get_shooting_efficiency_factor shooting_metrics prop_type;
            shot_volume_factor =
              calculate_shot_volume_factor fg_attempted ft_attempted first_half_minutes prop_type;
            opp_def_factor = get_opponent_def_adjustment opponent_def_rank prop_type;
            score_situation =
              (if blowout_warning then first_half_trend * 0.75
               else if \<bar>score_differential\<bar> \<le> 5 then first_half_trend * 1.08
               else if \<bar>score_differential\<bar> \<le> 10 then first_half_trend * 1.03
               else first_half_trend);
            historical =
              (if truthy historical_2h_avg
               then or_zero historical_2h_avg * (projected_minutes / 24.0)
               else first_half_trend);
            pm_factor = calculate_plus_minus_factor plus_minus first_half_minutes;
            utilization_multiplier =
              (if utilization_rate > 30 then 0.90 + (30 - utilization_rate) * 0.01
               else if utilization_rate < 15 then 1.05
               else 1.0);
            components =
              [(''first_half_trend'', first_half_trend),
               (''shooting_efficiency'', first_half_trend * shooting_factor),
               (''shot_volume'', first_half_trend * shot_volume_factor),
               (''opponent_defense'', first_half_trend * opp_def_factor),
               (''score_situation'', score_situation),
               (''historical_2h_avg'', historical),
               (''pace_adjustment'', first_half_trend * pace_factor * PACE_SUSTAINABILITY),
               (''plus_minus_factor'', first_half_trend * pm_factor),
               (''utilization_rate'', first_half_trend * utilization_multiplier),
               (''fatigue_factor'', first_half_trend * fatigue_factor)];
            projected =
              sum_list (map (\<lambda>(key, w). component components key * w) PROJECTION_WEIGHTS)
        in (max 0 projected, components))"

subsection \<open>Confidence score and recommendation\<close>

text \<open>
  Here and in the totals engines, each \<open>if\<close> statement of the source that updates
  \<open>confidence\<close> in its branches (\<open>confidence += 18\<close>, \<open>confidence -= 8\<close>, ...) is
  written as one addition of the amount the taken branch adds, 0 when no branch is taken.
\<close>

text \<open>
  The last statement of \<open>_calculate_confidence_score\<close>: the recommendation, from the
  sign of the distance to the line and the clamped confidence.
\<close>

definition determine_recommendation :: "real \<Rightarrow> real \<Rightarrow> string" where
  "determine_recommendation distance confidence =
     (if distance > 0 then
        (if confidence \<ge> 75 then ''strong_bet''
         else if confidence \<ge> 65 then ''bet''
         else if confidence \<ge> 55 then ''lean''
         else if confidence \<ge> 45 then ''neutral''
         else ''avoid'')
      else
        (if confidence \<le> 25 then ''strong_avoid''
         else if confidence \<le> 35 then ''avoid''
         else if confidence \<le> 45 then ''neutral''
         else ''lean''))"

definition calculate_confidence_score ::
  "real \<Rightarrow> real \<Rightarrow> real \<Rightarrow> real \<Rightarrow> ShootingMetrics \<Rightarrow> bool \<Rightarrow> bool \<Rightarrow> real \<Rightarrow> int \<Rightarrow> int
     \<Rightarrow> real option \<Rightarrow> real \<times> string" where
  "calculate_confidence_score projected_final prop_line first_half_value
     historical_consistency shooting_metrics foul_trouble blowout_warning utilization_rate
     plus_minus opponent_def_rank assist_to_turnover =
     (let confidence = 50.0;
          distance = projected_final - prop_line;
          distance_pct = (if prop_line > 0 then (distance / prop_line) * 100 else 0);
          confidence = confidence +
            (if \<bar>distance_pct\<bar> > 20 then 20 * (if distance > 0 then 1 else -1)
             else if \<bar>distance_pct\<bar> > 10 then 12 * (if distance > 0 then 1 else -1)
             else if \<bar>distance_pct\<bar> > 5 then 6 * (if distance > 0 then 1 else -1)
             else 0);
          progress_pct = (if prop_line > 0 then (first_half_value / prop_line) * 100 else 0);
          confidence = confidence +
            (if progress_pct \<ge> 60 then 18
             else if progress_pct \<ge> 50 then 10
             else if progress_pct \<ge> 40 then 4
             else if progress_pct < 30 then -8
             else 0);
          confidence = confidence +
            (if sm_ts_pct shooting_metrics \<ge> 65 then 10
             else if sm_ts_pct shooting_metrics \<ge> 55 then 6
             else if sm_ts_pct shooting_metrics \<ge> 45 then 2
             else if sm_ts_pct shooting_metrics < 35 then -6
             else 0);
          confidence = confidence +
            (if plus_minus \<ge> 10 then 8
             else if plus_minus \<ge> 5 then 4
             else if plus_minus \<le> -10 then -6
             else if plus_minus \<le> -5 then -3
             else 0);
          confidence = confidence +
            (if opponent_def_rank \<ge> 25 then 6
             else if opponent_def_rank \<ge> 20 then 3
             else if opponent_def_rank \<le> 5 then -6
             else if opponent_def_rank \<le> 10 then -3
             else 0);
          confidence = confidence +
            (case assist_to_turnover of
               None \<Rightarrow> 0
             | Some atr \<Rightarrow>
                 (if atr \<ge> 3.0 then 4
                  else if atr \<ge> 2.0 then 2
                  else if atr < 1.0 then -2
                  else 0));
          confidence = confidence +
            (if historical_consistency > 70 then 4
             else if historical_consistency < 30 then -4
             else 0);
          confidence = confidence + (if foul_trouble then -10 else 0);
          confidence = confidence + (if blowout_warning then -12 else 0);
          confidence = confidence + (if utilization_rate > 35 then -4 else 0);
          confidence = max 0 (min 100 confidence);
          recommendation = determine_recommendation distance confidence
      in (confidence, recommendation))"

definition get_opponent_def_rank_for_stat :: "TeamRatings \<Rightarrow> string \<Rightarrow> int" where
  "get_opponent_def_rank_for_stat opp_ratings prop_type =
     (if prop_type = ''points'' then tr_def_rank_pts opp_ratings
      else if prop_type = ''rebounds'' then tr_def_rank_reb opp_ratings
      else if prop_type = ''assists'' then tr_def_rank_ast opp_ratings
      else if prop_type \<in> set [''threes'', ''3pt''] then tr_def_rank_3pm opp_ratings
      else 15)"

subsection \<open>Player analysis\<close>

definition analyze_halftime_player ::
  "'e world \<Rightarrow> ratings_cache \<Rightarrow> LivePlayerStats \<Rightarrow> real \<Rightarrow> string \<Rightarrow> LiveGameData
     \<Rightarrow> LivePlayerStats list \<Rightarrow> int \<Rightarrow> string \<Rightarrow> TeamRatings option \<Rightarrow> bool
     \<Rightarrow> PlayerProjection \<times> ratings_cache" where
  "analyze_halftime_player w cache live_stats prop_line prop_type game_data team_stats
     opponent_team_id opponent_abbr team_ratings is_back_to_back =
     (let first_half_value = get_stat_value live_stats prop_type;
          first_half_minutes = ps_minutes_float live_stats;
          shooting_metrics = calculate_shooting_metrics live_stats;
          assist_to_turnover = calculate_assist_to_turnover live_stats;
          utilization_rate = calculate_utilization_rate live_stats team_stats;
          pace_factor = calculate_pace_factor game_data 24.0;
          foul_trouble = detect_foul_trouble (ps_fouls live_stats) first_half_minutes;
          blowout_warning = detect_blowout (gd_score_differential game_data);
          fatigue_factor = get_fatigue_factor is_back_to_back 1;
          (opp_ratings, cache) = get_team_ratings w cache opponent_team_id opponent_abbr;
          opponent_def_rank = get_opponent_def_rank_for_stat opp_ratings prop_type;
          (season_avg, historical_2h_avg) =
            (case client_get_player_season_stats w (ps_player_id live_stats) of
               None \<Rightarrow> (None, None)
             | Some season_stats \<Rightarrow>
                 if season_stats = [] then (None, None)
                 else if prop_type = ''points'' then
                   (map_of season_stats ''avg_points'',
                    map_of season_stats ''second_half_avg_points'')
                 else if prop_type = ''rebounds'' then
                   (map_of season_stats ''avg_rebounds'',
                    map_of season_stats ''second_half_avg_rebounds'')
                 else if prop_type = ''assists'' then
                   (map_of season_stats ''avg_assists'',
                    map_of season_stats ''second_half_avg_assists'')
                 else (None, None));
          minutes_projection =
            calculate_minutes_projection first_half_minutes foul_trouble blowout_warning
              (ps_starter live_stats);
          (projected_second_half, projection_components) =
            calculate_second_half_projection first_half_value first_half_minutes
              minutes_projection pace_factor utilization_rate fatigue_factor historical_2h_avg
              blowout_warning shooting_metrics (ps_plus_minus live_stats) opponent_def_rank
              prop_type (ps_fg_attempted live_stats) (ps_ft_attempted live_stats)
              (gd_score_differential game_data);
          projected_final = first_half_value + projected_second_half;
          historical_consistency = 50.0;
          (confidence, recommendation) =
            calculate_confidence_score projected_final prop_line first_half_value
              historical_consistency shooting_metrics foul_trouble blowout_warning
              utilization_rate (ps_plus_minus live_stats) opponent_def_rank assist_to_turnover;
          shot_volume_factor =
            calculate_shot_volume_factor (ps_fg_attempted live_stats)
              (ps_ft_attempted live_stats) first_half_minutes prop_type;
          factors =
            [(''first_half_progress'',
                if prop_line > 0 then first_half_value / prop_line * 100 else 0),
             (''shots_attempted'', of_int (ps_fg_attempted live_stats)),
             (''shot_volume_factor'', shot_volume_factor),
             (''shooting_ts_pct'', sm_ts_pct shooting_metrics),
             (''shooting_efg_pct'', sm_efg_pct shooting_metrics),
             (''opponent_def_rank'', of_int opponent_def_rank),
             (''opponent_def_adjustment'', get_opponent_def_adjustment opponent_def_rank prop_type),
             (''score_differential'', of_int (gd_score_differential game_data)),
             (''pace_factor'', pace_factor),
             (''plus_minus'', of_int (ps_plus_minus live_stats)),
             (''plus_minus_factor'',
                calculate_plus_minus_factor (ps_plus_minus live_stats) first_half_minutes),
             (''utilization_rate'', utilization_rate),
             (''fatigue_factor'', fatigue_factor),
             (''assist_to_turnover'', or_zero assist_to_turnover),
             (''foul_trouble_penalty'', if foul_trouble then -10 else 0),
             (''blowout_penalty'', if blowout_warning then -12 else 0)]
      in (\<lparr>pp_player_id = ps_player_id live_stats,
           pp_player_name = ps_player_name live_stats,
           pp_team_abbreviation = ps_team_abbreviation live_stats,
           pp_prop_type = prop_type,
           pp_prop_line = prop_line,
           pp_first_half_value = first_half_value,
           pp_first_half_minutes = first_half_minutes,
           pp_projected_second_half = py_round projected_second_half 1,
           pp_projected_final = py_round projected_final 1,
           pp_confidence_score = py_round confidence 1,
           pp_recommendation = recommendation,
           pp_factors = factors,
           pp_foul_trouble = foul_trouble,
           pp_blowout_warning = blowout_warning,
           pp_pace_factor = py_round pace_factor 2,
           pp_utilization_rate = py_round utilization_rate 1,
           pp_fatigue_factor = fatigue_factor,
           pp_minutes_projection = py_round minutes_projection 1,
           pp_shooting_metrics =
             Some \<lparr>ss_fg_pct = sm_fg_pct shooting_metrics,
                    ss_fg3_pct = sm_fg3_pct shooting_metrics,
                    ss_ft_pct = sm_ft_pct shooting_metrics,
                    ss_efg_pct = sm_efg_pct shooting_metrics,
                    ss_ts_pct = sm_ts_pct shooting_metrics,
                    ss_efficiency_rating = efficiency_rating shooting_metrics\<rparr>,
           pp_assist_to_turnover = assist_to_turnover,
           pp_opponent_def_rank = Some opponent_def_rank,
           pp_opponent_def_rating = Some (tr_def_rating opp_ratings),
           pp_team_off_rating = map_option tr_off_rating team_ratings,
           pp_season_average =
             (if truthy season_avg then Some (py_round (or_zero season_avg) 1) else None),
           pp_second_half_historical_avg =
             (if truthy historical_2h_avg then Some (py_round (or_zero historical_2h_avg) 1)
              else None),
           pp_plus_minus = ps_plus_minus live_stats,
           pp_shooting_efficiency = Some (sm_ts_pct shooting_metrics)\<rparr>,
          cache))"

subsection \<open>Game totals, basic variant\<close>

text \<open>
  The local variables of \<open>analyze_game_totals\<close>, before the rounding of the returned
  record.
\<close>

record totals_locals =
  tl_first_half_total :: int
  tl_first_half_pace :: real
  tl_league_avg_pace_comparison :: real
  tl_pace_rating :: string
  tl_blowout_risk :: bool
  tl_pace_sustainability :: real
  tl_projected_second_half_total :: real
  tl_projected_final_total :: real
  tl_projected_q3_total :: real
  tl_projected_q4_total :: real
  tl_total_confidence :: real

definition game_totals_locals :: "LiveGameData \<Rightarrow> totals_locals" where
  "game_totals_locals game_data =
     (let first_half_total = gd_total_score game_data;
          first_half_minutes = 24.0;
          first_half_pace = of_int first_half_total / first_half_minutes;
          expected_pace = LEAGUE_AVG_TOTAL / 48.0;
          league_avg_pace_comparison = first_half_pace / expected_pace;
          pace_rating =
            (if league_avg_pace_comparison \<ge> 1.15 then ''very_fast''
             else if league_avg_pace_comparison \<ge> 1.05 then ''fast''
             else if league_avg_pace_comparison \<ge> 0.95 then ''average''
             else ''slow'');
          blowout_risk = detect_blowout (gd_score_differential game_data);
          pace_sustainability =
            (if league_avg_pace_comparison \<ge> 1.2 then 0.90
             else if league_avg_pace_comparison \<ge> 1.1 then 0.93
             else if league_avg_pace_comparison \<le> 0.85 then 1.05
             else PACE_SUSTAINABILITY);
          base_second_half = of_int first_half_total * pace_sustainability;
          base_second_half = (if blowout_risk then base_second_half * 0.92 else base_second_half);
          projected_second_half_total = base_second_half;
          projected_final_total = of_int first_half_total + projected_second_half_total;
          projected_q3_total = (projected_second_half_total / 2) * Q3_PACE_FACTOR;
          projected_q4_total = projected_second_half_total - projected_q3_total;
          total_confidence = 60.0;
          total_confidence = total_confidence +
            (if 0.95 \<le> league_avg_pace_comparison \<and> league_avg_pace_comparison \<le> 1.05
             then 15
             else if 0.90 \<le> league_avg_pace_comparison \<and> league_avg_pace_comparison \<le> 1.10
             then 8
             else -10);
          total_confidence = total_confidence + (if blowout_risk then -15 else 0);
          total_confidence = max 0 (min 100 total_confidence)
      in \<lparr>tl_first_half_total = first_half_total,
          tl_first_half_pace = first_half_pace,
          tl_league_avg_pace_comparison = league_avg_pace_comparison,
          tl_pace_rating = pace_rating,
          tl_blowout_risk = blowout_risk,
          tl_pace_sustainability = pace_sustainability,
          tl_projected_second_half_total = projected_second_half_total,
          tl_projected_final_total = projected_final_total,
          tl_projected_q3_total = projected_q3_total,
          tl_projected_q4_total = projected_q4_total,
          tl_total_confidence = total_confidence\<rparr>)"

definition analyze_game_totals ::
  "LiveGameData \<Rightarrow> box_score \<Rightarrow> TeamRatings option \<Rightarrow> TeamRatings option
     \<Rightarrow> GameTotalProjection" where
  "analyze_game_totals game_data box_score home_ratings away_ratings =
     (let l = game_totals_locals game_data
      in \<lparr>gt_game_id = gd_game_id game_data,
          gt_home_team = gd_home_team_abbr game_data,
          gt_away_team = gd_away_team_abbr game_data,
          gt_current_total = tl_first_half_total l,
          gt_first_half_total = tl_first_half_total l,
          gt_score_differential = gd_score_differential game_data,
          gt_first_half_pace = py_round (tl_first_half_pace l) 2,
          gt_pace_rating = tl_pace_rating l,
          gt_league_avg_pace_comparison = py_round (tl_league_avg_pace_comparison l) 2,
          gt_projected_second_half_total = py_round (tl_projected_second_half_total l) 1,
          gt_projected_final_total = py_round (tl_projected_final_total l) 1,
          gt_projected_q3_total = py_round (tl_projected_q3_total l) 1,
          gt_projected_q4_total = py_round (tl_projected_q4_total l) 1,
          gt_total_confidence = py_round (tl_total_confidence l) 1,
          gt_blowout_risk = tl_blowout_risk l,
          gt_pace_sustainability = py_round (tl_pace_sustainability l) 2,
          gt_home_off_rating = map_option tr_off_rating home_ratings,
          gt_home_def_rating = map_option tr_def_rating home_ratings,
          gt_away_off_rating = map_option tr_off_rating away_ratings,
          gt_away_def_rating = map_option tr_def_rating away_ratings\<rparr>)"

subsection \<open>Orchestration\<close>

record suggestion =
  sg_player_name :: string
  sg_team_abbreviation :: string
  sg_prop_type :: string
  sg_prop_line :: real
  sg_current_value :: real
  sg_projected_final :: real
  sg_confidence_score :: real
  sg_recommendation :: string
  sg_edge :: real
  sg_risk_level :: string
  sg_key_factors :: "string list"

record 'e halftime_analysis =
  ha_game_id :: string
  ha_game_info :: LiveGameData
  ha_home_ratings :: TeamRatings
  ha_away_ratings :: TeamRatings
  ha_game_total_analysis :: GameTotalProjection
  ha_player_analyses :: "PlayerProjection list"
  ha_suggestions :: "suggestion list"
  ha_analysis_timestamp :: string
  ha_warnings :: "string list"
  ha_enhanced_game_totals :: "'e option"

type_synonym prop_lines = "string \<rightharpoonup> (string \<rightharpoonup> real)"

text \<open>
  The inner loop over the default prop types of one player.  The call of
  \<open>analyze_halftime_player\<close> stands under a \<open>try\<close> whose handler skips the prop; the
  modelled analysis has no raising branch, so the handler is never entered.
\<close>

fun analyze_prop_types ::
  "'e world \<Rightarrow> LiveGameData \<Rightarrow> LivePlayerStats list \<Rightarrow> int \<Rightarrow> string \<Rightarrow> TeamRatings \<Rightarrow> bool
     \<Rightarrow> (string \<rightharpoonup> real) \<Rightarrow> LivePlayerStats \<Rightarrow> string list \<Rightarrow> ratings_cache
     \<Rightarrow> PlayerProjection list \<times> ratings_cache" where
  "analyze_prop_types w game_data team_stats opponent_team_id opponent_abbr team_ratings
     is_b2b player_props player [] cache = ([], cache)"
| "analyze_prop_types w game_data team_stats opponent_team_id opponent_abbr team_ratings
     is_b2b player_props player (prop_type # rest) cache =
     (let prop_line =
            (case player_props prop_type of
               Some line \<Rightarrow> line
             | None \<Rightarrow> get_stat_value player prop_type * 2)
      in if prop_line \<le> 0
         then analyze_prop_types w game_data team_stats opponent_team_id opponent_abbr
                team_ratings is_b2b player_props player rest cache
         else
           let (analysis, cache) =
                 analyze_halftime_player w cache player prop_line prop_type game_data
                   team_stats opponent_team_id opponent_abbr (Some team_ratings) is_b2b;
               (analyses, cache) =
                 analyze_prop_types w game_data team_stats opponent_team_id opponent_abbr
                   team_ratings is_b2b player_props player rest cache
           in (analysis # analyses, cache))"

fun analyze_players ::
  "'e world \<Rightarrow> LiveGameData \<Rightarrow> box_score \<Rightarrow> TeamRatings \<Rightarrow> TeamRatings \<Rightarrow> bool \<Rightarrow> bool
     \<Rightarrow> prop_lines option \<Rightarrow> LivePlayerStats list \<Rightarrow> ratings_cache
     \<Rightarrow> PlayerProjection list \<times> ratings_cache" where
  "analyze_players w game_data box_score home_ratings away_ratings home_b2b away_b2b
     prop_lines [] cache = ([], cache)"
| "analyze_players w game_data box_score home_ratings away_ratings home_b2b away_b2b
     prop_lines (player # rest) cache =
     (if ps_minutes_float player < 5
      then analyze_players w game_data box_score home_ratings away_ratings home_b2b away_b2b
             prop_lines rest cache
      else
        let is_home = (ps_team_abbreviation player = gd_home_team_abbr game_data);
            is_b2b = (if is_home then home_b2b else away_b2b);
            team_stats = (if is_home then bs_home box_score else bs_away box_score);
            opponent_team_id =
              (if is_home then gd_away_team_id game_data else gd_home_team_id game_data);
            opponent_abbr =
              (if is_home then gd_away_team_abbr game_data else gd_home_team_abbr game_data);
            team_ratings = (if is_home then home_ratings else away_ratings);
            player_props =
              (case prop_lines of
                 None \<Rightarrow> Map.empty
               | Some lines \<Rightarrow>
                   (case lines (ps_player_name player) of
                      None \<Rightarrow> Map.empty
                    | Some props \<Rightarrow> props));
            default_prop_types = [''points'', ''rebounds'', ''assists''];
            (analyses, cache) =
              analyze_prop_types w game_data team_stats opponent_team_id opponent_abbr
                team_ratings is_b2b player_props player default_prop_types cache;
            (more, cache) =
              analyze_players w game_data box_score home_ratings away_ratings home_b2b
                away_b2b prop_lines rest cache
        in (analyses @ more, cache))"

definition make_suggestion :: "PlayerProjection \<Rightarrow> suggestion" where
  "make_suggestion analysis =
     (let edge = pp_projected_final analysis - pp_prop_line analysis;
          risk_level =
            (if pp_confidence_score analysis \<ge> 75 then ''low''
             else if pp_confidence_score analysis \<ge> 65 then ''medium''
             else ''high'');
          key_factors =
            (if or_zero (map_of (pp_factors analysis) ''first_half_progress'') \<ge> 50
             then [''Strong 1H progress''] else [])
            @ (case pp_shooting_metrics analysis of
                 None \<Rightarrow> []
               | Some m \<Rightarrow>
                   if ss_ts_pct m \<ge> 60
                   then [''Hot shooting ('' @ format_f 0 (ss_ts_pct m) @ ''% TS)'']
                   else [])
            @ (if pp_plus_minus analysis \<ge> 8
               then [''+'' @ str_int (pp_plus_minus analysis) @ '' plus/minus''] else [])
            @ (case pp_opponent_def_rank analysis of
                 None \<Rightarrow> []
               | Some rank \<Rightarrow> if rank \<noteq> 0 \<and> rank \<ge> 25 then [''Weak opponent defense''] else [])
            @ (if pp_pace_factor analysis \<ge> 1.1 then [''Fast pace game''] else [])
            @ (if pp_foul_trouble analysis then [''Warning: Foul trouble''] else [])
            @ (if pp_blowout_warning analysis then [''Warning: Blowout risk''] else [])
      in \<lparr>sg_player_name = pp_player_name analysis,
          sg_team_abbreviation = pp_team_abbreviation analysis,
          sg_prop_type = pp_prop_type analysis,
          sg_prop_line = pp_prop_line analysis,
          sg_current_value = pp_first_half_value analysis,
          sg_projected_final = pp_projected_final analysis,
          sg_confidence_score = pp_confidence_score analysis,
          sg_recommendation = pp_recommendation analysis,
          sg_edge = py_round edge 1,
          sg_risk_level = risk_level,
          sg_key_factors = key_factors\<rparr>)"

text \<open>
  \<open>get_halftime_analysis\<close>.  The engine's ratings cache is passed in and returned.  The
  only \<open>raise\<close> of the function is the \<open>ValueError\<close> for a game id that is not among
  today's games.
\<close>

definition get_halftime_analysis ::
  "'e world \<Rightarrow> ratings_cache \<Rightarrow> string \<Rightarrow> prop_lines option
     \<Rightarrow> (error + 'e halftime_analysis) \<times> ratings_cache" where
  "get_halftime_analysis w cache game_id prop_lines =
     (let games = client_get_todays_games w
      in case find (\<lambda>g. gd_game_id g = game_id) games of
           None \<Rightarrow> (Inl (ValueError (''Game '' @ game_id @ '' not found'')), cache)
         | Some game_data \<Rightarrow>
             let box_score = client_get_live_box_score w game_id;
                 (home_ratings, cache) =
                   get_team_ratings w cache (gd_home_team_id game_data)
                     (gd_home_team_abbr game_data);
                 (away_ratings, cache) =
                   get_team_ratings w cache (gd_away_team_id game_data)
                     (gd_away_team_abbr game_data);
                 game_total_analysis =
                   analyze_game_totals game_data box_score (Some home_ratings) (Some away_ratings);
                 all_players = bs_home box_score @ bs_away box_score;
                 home_b2b = client_is_back_to_back w (gd_home_team_id game_data);
                 away_b2b = client_is_back_to_back w (gd_away_team_id game_data);
                 (player_analyses, cache) =
                   analyze_players w game_data box_score home_ratings away_ratings home_b2b
                     away_b2b prop_lines all_players cache;
                 suggestions =
                   map make_suggestion
                     (filter (\<lambda>analysis. pp_confidence_score analysis \<ge> 60
                                \<and> pp_recommendation analysis \<in> set [''strong_bet'', ''bet'', ''lean''])
                        player_analyses);
                 suggestions = sort_key (\<lambda>x. - sg_confidence_score x) suggestions;
                 warnings =
                   (if gt_blowout_risk game_total_analysis
                    then [''Blowout warning: '' @ str_int (gd_score_differential game_data)
                            @ '' point differential'']
                    else [])
                   @ (if gt_pace_rating game_total_analysis = ''very_fast''
                      then [''Very fast pace - projections may have higher variance'']
                      else []);
                 enhanced_game_totals =
                   (case w_enhanced_totals w game_data box_score home_ratings away_ratings of
                      Inr enhanced_result \<Rightarrow> Some enhanced_result
                    | Inl e \<Rightarrow> None)
             in (Inr \<lparr>ha_game_id = game_id,
                       ha_game_info = game_data,
                       ha_home_ratings = home_ratings,
                       ha_away_ratings = away_ratings,
                       ha_game_total_analysis = game_total_analysis,
                       ha_player_analyses = player_analyses,
                       ha_suggestions = suggestions,
                       ha_analysis_timestamp = w_utcnow w,
                       ha_warnings = warnings,
                       ha_enhanced_game_totals = enhanced_game_totals\<rparr>,
                 cache))"

text \<open>
  api/halftime.py, \<open>analyze_halftime_game\<close>: a \<open>ValueError\<close> becomes the response 404 with
  the error's message, any other exception the response 500.
\<close>

datatype http_error = HTTPException int string

definition analyze_halftime_game ::
  "'e world \<Rightarrow> ratings_cache \<Rightarrow> string \<Rightarrow> (http_error + 'e halftime_analysis) \<times> ratings_cache" where
  "analyze_halftime_game w cache game_id =
     (case get_halftime_analysis w cache game_id None of
        (Inr analysis, cache) \<Rightarrow> (Inr analysis, cache)
      | (Inl (ValueError msg), cache) \<Rightarrow> (Inl (HTTPException 404 msg), cache)
      | (Inl e, cache) \<Rightarrow> (Inl (HTTPException 500 ''Failed to analyze game''), cache))"

section \<open>analysis\_engine.py\<close>

subsection \<open>Records, JSON dictionaries and the service\<close>

record PropBetData =
  pb_prop_id :: int
  pb_player_name :: string
  pb_player_id :: "int option"
  pb_stat_type :: string
  pb_line :: real
  pb_over_under :: string
  pb_opponent_name :: "string option"
  pb_game_date :: "string option"

record PropAnalysis =
  pa_prop_id :: int
  pa_player_name :: string
  pa_stat_type :: string
  pa_line :: real
  pa_over_under :: string
  pa_confidence_score :: real
  pa_hit_rate_last_10 :: real
  pa_average_stat :: real
  pa_opponent_defensive_rank :: "int option"
  pa_pace_adjusted_projection :: real
  pa_factors :: "(string \<times> real) list"
  pa_recommendation :: string
  pa_analysis_notes :: "string option"

text \<open>
  A game of the player's history is a JSON dictionary; \<open>dict_get d k v\<close> is \<open>d.get(k, v)\<close>
  and \<open>dict_get d k PNone\<close> is \<open>d.get(k)\<close>.
\<close>

type_synonym game = "(string \<times> pyval) list"

definition dict_get :: "game \<Rightarrow> string \<Rightarrow> pyval \<Rightarrow> pyval" where
  "dict_get d key dflt = (case map_of d key of Some v \<Rightarrow> v | None \<Rightarrow> dflt)"

definition py_truthy :: "pyval \<Rightarrow> bool" where
  "py_truthy v = (case v of PNone \<Rightarrow> False | PNum x \<Rightarrow> x \<noteq> 0 | PStr s \<Rightarrow> s \<noteq> [])"

text \<open>
  The BallDontLie service.  Each of its methods is \<open>try: body except Exception: return
  default\<close>; the environment gives the outcome of each body.  A player or team the service
  finds is a non-empty dictionary; of a player the analyzer reads the \<open>id\<close> entry.

  The environment also holds the library routines whose result the analyzer only passes
  on: \<open>int(s)\<close> and \<open>float(s)\<close> on a string (\<open>None\<close> when they raise), and the outcome
  of \<open>np.polyfit\<close> on a single point, where the fit is rank-deficient and numpy's answer
  (an exception or a value) depends on its linear-algebra backend.
\<close>

record player_data =
  pl_id :: "int option"

record env =
  sv_search_player :: "string \<Rightarrow> upstream_error + player_data option"
  sv_player_stats :: "int \<Rightarrow> nat \<Rightarrow> upstream_error + game list"
  sv_search_team :: "string \<Rightarrow> upstream_error + unit option"
  lib_int :: "string \<Rightarrow> int option"
  lib_float :: "string \<Rightarrow> real option"
  lib_polyfit_single :: "real \<Rightarrow> error + real"

definition search_player :: "env \<Rightarrow> string \<Rightarrow> player_data option" where
  "search_player env name =
     (case sv_search_player env name of Inr found \<Rightarrow> found | Inl e \<Rightarrow> None)"

definition get_player_stats :: "env \<Rightarrow> int \<Rightarrow> nat \<Rightarrow> game list" where
  "get_player_stats env player_id limit =
     (case sv_player_stats env player_id limit of Inr games \<Rightarrow> games | Inl e \<Rightarrow> [])"

definition search_team_by_name :: "env \<Rightarrow> string \<Rightarrow> unit option" where
  "search_team_by_name env name =
     (case sv_search_team env name of Inr found \<Rightarrow> found | Inl e \<Rightarrow> None)"

subsection \<open>numpy\<close>

definition np_mean :: "real list \<Rightarrow> real" where
  "np_mean xs = sum_list xs / real (length xs)"

definition np_var :: "real list \<Rightarrow> real" where
  "np_var xs = (let m = np_mean xs in sum_list (map (\<lambda>x. (x - m) ^ 2) xs) / real (length xs))"

definition np_clip :: "real \<Rightarrow> real \<Rightarrow> real \<Rightarrow> real" where
  "np_clip x lo hi = min (max x lo) hi"

text \<open>
  The slope of the least-squares line through the points \<open>(0, y\<^sub>0), ..., (n-1, y\<^bsub>n-1\<^esub>)\<close>,
  which is what \<open>np.polyfit(range(n), ys, 1)[0]\<close> computes for two points or more.
\<close>

definition ls_slope :: "real list \<Rightarrow> real" where
  "ls_slope ys =
     (let n = real (length ys);
          xs = map real [0..<length ys];
          sx = sum_list xs;
          sy = sum_list ys;
          sxy = sum_list (map (\<lambda>(x, y). x * y) (zip xs ys));
          sxx = sum_list (map (\<lambda>x. x * x) xs)
      in (n * sxy - sx * sy) / (n * sxx - sx * sx))"

definition np_polyfit_slope :: "env \<Rightarrow> real list \<Rightarrow> error + real" where
  "np_polyfit_slope env ys =
     (case ys of
        [y] \<Rightarrow> lib_polyfit_single env y
      | _ \<Rightarrow> Inr (ls_slope ys))"

text \<open>A list of JSON values as numbers; numpy raises on a string.\<close>

fun numbers :: "pyval list \<Rightarrow> error + real list" where
  "numbers [] = Inr []"
| "numbers (PNum x # vs) = (case numbers vs of Inl e \<Rightarrow> Inl e | Inr xs \<Rightarrow> Inr (x # xs))"
| "numbers (v # vs) = Inl TypeError"

subsection \<open>The analyzer\<close>

definition STAT_TYPE_MAP :: "(string \<times> string) list" where
  "STAT_TYPE_MAP =
     [(''points'', ''pts''), (''pts'', ''pts''),
      (''rebounds'', ''reb''), (''reb'', ''reb''),
      (''assists'', ''ast''), (''ast'', ''ast''),
      (''threes'', ''fg3m''), (''3pm'', ''fg3m''),
      (''steals'', ''stl''), (''stl'', ''stl''),
      (''blocks'', ''blk''), (''blk'', ''blk'')]"

definition stat_key_of :: "string \<Rightarrow> string" where
  "stat_key_of stat_type =
     (case map_of STAT_TYPE_MAP (lower stat_type) of
        Some key \<Rightarrow> key
      | None \<Rightarrow> lower stat_type)"

text \<open>
  The loop of \<open>_calculate_hit_rate\<close>, with its two counters.  Comparing a string with
  the line raises \<open>TypeError\<close>; the comparison is reached only for the directions
  \<open>over\<close> and \<open>under\<close>.
\<close>

fun hit_rate_loop ::
  "game list \<Rightarrow> string \<Rightarrow> PropBetData \<Rightarrow> nat \<Rightarrow> nat \<Rightarrow> error + nat \<times> nat" where
  "hit_rate_loop [] stat_key prop hits valid_games = Inr (hits, valid_games)"
| "hit_rate_loop (game # games) stat_key prop hits valid_games =
     (case dict_get game stat_key (PNum 0) of
        PNone \<Rightarrow> hit_rate_loop games stat_key prop hits valid_games
      | PNum stat_value \<Rightarrow>
          if pb_over_under prop = ''over'' \<and> stat_value > pb_line prop
          then hit_rate_loop games stat_key prop (hits + 1) (valid_games + 1)
          else if pb_over_under prop = ''under'' \<and> stat_value < pb_line prop
          then hit_rate_loop games stat_key prop (hits + 1) (valid_games + 1)
          else hit_rate_loop games stat_key prop hits (valid_games + 1)
      | PStr s \<Rightarrow>
          if pb_over_under prop = ''over'' \<or> pb_over_under prop = ''under''
          then Inl TypeError
          else hit_rate_loop games stat_key prop hits (valid_games + 1))"

definition calculate_hit_rate :: "game list \<Rightarrow> PropBetData \<Rightarrow> error + real" where
  "calculate_hit_rate games prop =
     (let stat_key = stat_key_of (pb_stat_type prop)
      in case hit_rate_loop games stat_key prop 0 0 of
           Inl e \<Rightarrow> Inl e
         | Inr (hits, valid_games) \<Rightarrow>
             Inr (if valid_games > 0 then real hits / real valid_games * 100 else 0))"

definition calculate_average_stat :: "game list \<Rightarrow> string \<Rightarrow> error + real" where
  "calculate_average_stat games stat_key =
     (let values = filter (\<lambda>v. v \<noteq> PNone) (map (\<lambda>game. dict_get game stat_key (PNum 0)) games)
      in if values = [] then Inr 0
         else (case numbers values of Inl e \<Rightarrow> Inl e | Inr xs \<Rightarrow> Inr (np_mean xs)))"

fun split_on :: "char \<Rightarrow> string \<Rightarrow> string list" where
  "split_on c [] = [[]]"
| "split_on c (x # xs) =
     (if x = c then [] # split_on c xs
      else (case split_on c xs of p # ps \<Rightarrow> (x # p) # ps | [] \<Rightarrow> [[x]]))"

text \<open>
  One entry of the \<open>min\<close> column as minutes; \<open>None\<close> when the conversion raises, which
  the caller's bare \<open>except\<close> catches.
\<close>

definition minute_value :: "env \<Rightarrow> pyval \<Rightarrow> real option" where
  "minute_value env m =
     (case m of
        PStr s \<Rightarrow>
          if CHR '':'' \<in> set s then
            (case split_on CHR '':'' s of
               a # b # rest \<Rightarrow>
                 (case (lib_int env a, lib_int env b) of
                    (Some h, Some sec) \<Rightarrow> Some (of_int h + of_int sec / 60)
                  | _ \<Rightarrow> None)
             | _ \<Rightarrow> None)
          else lib_float env s
      | PNum x \<Rightarrow> Some x
      | PNone \<Rightarrow> Some 0)"

definition analyze_factors ::
  "env \<Rightarrow> game list \<Rightarrow> PropBetData \<Rightarrow> string \<Rightarrow> error + (string \<times> real) list" where
  "analyze_factors env games prop stat_key =
     (let present = (\<lambda>gs. filter (\<lambda>v. v \<noteq> PNone) (map (\<lambda>game. dict_get game stat_key PNone) gs));
          recent_trend =
            (if length games \<ge> 5 then
               (case numbers (present (take 5 games)) of
                  Inl e \<Rightarrow> Inl e
                | Inr recent_stats \<Rightarrow>
                    if recent_stats = [] then Inr []
                    else (case np_polyfit_slope env recent_stats of
                            Inl e \<Rightarrow> Inl e
                          | Inr trend \<Rightarrow> Inr [(''recent_trend'', np_clip (trend / 5) (-1) 1)]))
             else Inr []);
          consistency =
            (case numbers (present games) of
               Inl e \<Rightarrow> Inl e
             | Inr stats \<Rightarrow>
                 if stats = [] then Inr []
                 else
                   let variance = np_var stats;
                       consistency_score = 1 - min (variance / 50) 1
                   in Inr [(''consistency'', consistency_score)]);
          minutes = filter py_truthy (map (\<lambda>game. dict_get game ''min'' PNone) games);
          playing_time =
            (if minutes = [] then []
             else if list_all (\<lambda>m. minute_value env m \<noteq> None) minutes then
               (let min_values = map (\<lambda>m. or_zero (minute_value env m)) minutes;
                    avg_minutes = np_mean min_values
                in [(''playing_time'', min (avg_minutes / 35) 1.0)])
             else [(''playing_time'', 0.5)])
      in case recent_trend of
           Inl e \<Rightarrow> Inl e
         | Inr trend_entry \<Rightarrow>
             (case consistency of
                Inl e \<Rightarrow> Inl e
              | Inr consistency_entry \<Rightarrow>
                  Inr (trend_entry @ consistency_entry
                       @ [(''home_away'', 0.0), (''rest'', 0.0)] @ playing_time)))"

definition factor_weights :: "(string \<times> real) list" where
  "factor_weights =
     [(''recent_trend'', 8),
      (''consistency'', 10),
      (''home_away'', 5),
      (''rest'', 3),
      (''playing_time'', 8)]"

definition calculate_confidence ::
  "real \<Rightarrow> (string \<times> real) list \<Rightarrow> real \<Rightarrow> real \<Rightarrow> real" where
  "calculate_confidence hit_rate factors avg_stat line =
     (let base_confidence = hit_rate;
          distance_from_line = \<bar>avg_stat - line\<bar>;
          distance_boost =
            (if avg_stat > line then min (distance_from_line * 2) 10
             else - min (distance_from_line * 2) 10);
          factor_adjustment =
            sum_list (map (\<lambda>(k, v). or_zero (map_of factors k) * v) factor_weights);
          confidence = base_confidence + distance_boost + factor_adjustment
      in np_clip confidence 0 100)"

definition generate_recommendation :: "real \<Rightarrow> string \<Rightarrow> string" where
  "generate_recommendation confidence over_under =
     (if confidence \<ge> 70 then ''strong_bet''
      else if confidence \<ge> 58 then ''bet''
      else if confidence \<ge> 45 then ''neutral''
      else if confidence \<ge> 30 then ''avoid''
      else ''strong_avoid'')"

fun join_with :: "string \<Rightarrow> string list \<Rightarrow> string" where
  "join_with sep [] = []"
| "join_with sep [x] = x"
| "join_with sep (x # y # ys) = x @ sep @ join_with sep (y # ys)"

definition generate_analysis_notes ::
  "PropBetData \<Rightarrow> real \<Rightarrow> real \<Rightarrow> (string \<times> real) list \<Rightarrow> string" where
  "generate_analysis_notes prop hit_rate average_stat factors =
     (let notes =
            [if hit_rate \<ge> 70 then
               ''Player has hit this prop in '' @ format_f 0 hit_rate
                 @ ''% of last 10 games (strong track record).''
             else if hit_rate \<ge> 50 then
               ''Player has hit this prop in '' @ format_f 0 hit_rate
                 @ ''% of last 10 games (decent track record).''
             else
               ''Player has only hit this prop in '' @ format_f 0 hit_rate
                 @ ''% of last 10 games (poor track record).''];
          notes = notes @
            [if average_stat > pb_line prop then
               ''Player's average ('' @ format_f 1 average_stat @ '') is ''
                 @ format_f 1 (average_stat - pb_line prop) @ '' above the line.''
             else if average_stat < pb_line prop then
               ''Player's average ('' @ format_f 1 average_stat @ '') is ''
                 @ format_f 1 (pb_line prop - average_stat) @ '' below the line.''
             else ''Player's average matches the line exactly.''];
          notes = notes @
            (if or_zero (map_of factors ''recent_trend'') > 0.3
             then [''Player is trending up recently.'']
             else if or_zero (map_of factors ''recent_trend'') < -0.3
             then [''Player is trending down recently.'']
             else []);
          notes = notes @
            (if or_zero (map_of factors ''consistency'') > 0.7
             then [''Player has been very consistent.'']
             else if or_zero (map_of factors ''consistency'') < 0.3
             then [''Player's performance has been inconsistent.'']
             else [])
      in join_with '' '' notes)"

definition create_default_analysis :: "PropBetData \<Rightarrow> string \<Rightarrow> PropAnalysis" where
  "create_default_analysis prop reason =
     \<lparr>pa_prop_id = pb_prop_id prop,
      pa_player_name = pb_player_name prop,
      pa_stat_type = pb_stat_type prop,
      pa_line = pb_line prop,
      pa_over_under = pb_over_under prop,
      pa_confidence_score = 50.0,
      pa_hit_rate_last_10 = 50.0,
      pa_average_stat = pb_line prop,
      pa_opponent_defensive_rank = None,
      pa_pace_adjusted_projection = pb_line prop,
      pa_factors = [],
      pa_recommendation = ''neutral'',
      pa_analysis_notes = Some (''Unable to analyze: '' @ reason)\<rparr>"

text \<open>
  The first step of \<open>analyze_prop\<close>: the player id of the prop, looked up by name when the
  prop has none (a missing id and the id 0 are both false in Python).
\<close>

definition id_truthy :: "int option \<Rightarrow> bool" where
  "id_truthy pid = (case pid of None \<Rightarrow> False | Some i \<Rightarrow> i \<noteq> 0)"

definition resolve_player_id :: "env \<Rightarrow> PropBetData \<Rightarrow> int option" where
  "resolve_player_id env prop =
     (if \<not> id_truthy (pb_player_id prop) then
        (case search_player env (pb_player_name prop) of
           Some player_data \<Rightarrow> pl_id player_data
         | None \<Rightarrow> pb_player_id prop)
      else pb_player_id prop)"

definition analyze_prop :: "env \<Rightarrow> PropBetData \<Rightarrow> error + PropAnalysis" where
  "analyze_prop env prop =
     (case resolve_player_id env prop of
        None \<Rightarrow> Inr (create_default_analysis prop ''Player not found in database'')
      | Some player_id \<Rightarrow>
          if player_id = 0
          then Inr (create_default_analysis prop ''Player not found in database'')
          else
            let recent_games = get_player_stats env player_id 10
            in if recent_games = []
               then Inr (create_default_analysis prop ''No recent game data available'')
               else
                 (case calculate_hit_rate recent_games prop of
                    Inl e \<Rightarrow> Inl e
                  | Inr hit_rate \<Rightarrow>
                      let stat_key = stat_key_of (pb_stat_type prop)
                      in (case calculate_average_stat recent_games stat_key of
                            Inl e \<Rightarrow> Inl e
                          | Inr average_stat \<Rightarrow>
                              let opponent_rank =
                                    (case pb_opponent_name prop of
                                       None \<Rightarrow> None
                                     | Some name \<Rightarrow>
                                         if name = [] then None
                                         else (case search_team_by_name env name of
                                                 Some opponent_data \<Rightarrow> Some 15
                                               | None \<Rightarrow> None));
                                  pace_adjustment = 1.0;
                                  pace_adjusted_projection = average_stat * pace_adjustment
                              in (case analyze_factors env recent_games prop stat_key of
                                    Inl e \<Rightarrow> Inl e
                                  | Inr factors \<Rightarrow>
                                      let confidence =
                                            calculate_confidence hit_rate factors average_stat
                                              (pb_line prop);
                                          recommendation =
                                            generate_recommendation confidence (pb_over_under prop);
                                          notes =
                                            generate_analysis_notes prop hit_rate average_stat
                                              factors
                                      in Inr \<lparr>pa_prop_id = pb_prop_id prop,
                                               pa_player_name = pb_player_name prop,
                                               pa_stat_type = pb_stat_type prop,
                                               pa_line = pb_line prop,
                                               pa_over_under = pb_over_under prop,
                                               pa_confidence_score = py_round confidence 2,
                                               pa_hit_rate_last_10 = py_round hit_rate 2,
                                               pa_average_stat = py_round average_stat 2,
                                               pa_opponent_defensive_rank = opponent_rank,
                                               pa_pace_adjusted_projection =
                                                 py_round pace_adjusted_projection 2,
                                               pa_factors = factors,
                                               pa_recommendation = recommendation,
                                               pa_analysis_notes = Some notes\<rparr>))))"

section \<open>game\_totals\_engine.py\<close>

subsection \<open>Constants and records\<close>

definition LEAGUE_AVG_PPP :: real where "LEAGUE_AVG_PPP = 1.14"
definition LEAGUE_AVG_EFG :: real where "LEAGUE_AVG_EFG = 52.5"
definition LEAGUE_AVG_TS :: real where "LEAGUE_AVG_TS = 57.5"

text \<open>
  The totals engine has its own \<open>Q3_PACE_FACTOR\<close>, \<open>BLOWOUT_THRESHOLD\<close> and
  \<open>FOUL_TROUBLE_THRESHOLD\<close>; they carry the prefix \<open>GT_\<close> here.
\<close>

definition GT_Q3_PACE_FACTOR :: real where "GT_Q3_PACE_FACTOR = 0.91"
definition Q4_CLOSE_FACTOR :: real where "Q4_CLOSE_FACTOR = 1.06"
definition Q4_MODERATE_FACTOR :: real where "Q4_MODERATE_FACTOR = 0.98"
definition Q4_BLOWOUT_FACTOR :: real where "Q4_BLOWOUT_FACTOR = 0.88"

definition GT_BLOWOUT_THRESHOLD :: int where "GT_BLOWOUT_THRESHOLD = 20"
definition CLOSE_GAME_THRESHOLD :: int where "CLOSE_GAME_THRESHOLD = 8"
definition MODERATE_LEAD_THRESHOLD :: int where "MODERATE_LEAD_THRESHOLD = 15"

definition GT_FOUL_TROUBLE_THRESHOLD :: int where "GT_FOUL_TROUBLE_THRESHOLD = 3"
definition SHOOTING_REGRESSION_RATE :: real where "SHOOTING_REGRESSION_RATE = 0.40"


record PaceAnalysis =
  pc_first_half_possessions_est :: real
  pc_possessions_per_48_live :: real
  pc_points_per_possession_home :: real
  pc_points_per_possession_away :: real
  pc_home_season_pace :: real
  pc_away_season_pace :: real
  pc_matchup_expected_pace :: real
  pc_pace_deviation :: real
  pc_pace_trend :: string
  pc_q1_pace :: "real option"
  pc_q2_pace :: "real option"
  pc_transition_rate :: real

record TeamShootingProfile =
  sp_team_abbr :: string
  sp_live_efg_pct :: real
  sp_live_ts_pct :: real
  sp_live_fg3_rate :: real
  sp_live_fg3_pct :: real
  sp_live_ft_rate :: real
  sp_live_ft_pct :: real
  sp_season_efg_pct :: real
  sp_season_ts_pct :: real
  sp_season_fg3_rate :: real
  sp_season_fg3_pct :: real
  sp_season_ft_rate :: real
  sp_shooting_regression_factor :: real
  sp_shooting_variance_level :: string

record StarPlayerImpact =
  st_player_name :: string
  st_player_id :: int
  st_team_abbr :: string
  st_first_half_points :: int
  st_first_half_minutes :: real
  st_usage_rate :: real
  st_current_efficiency :: real
  st_foul_trouble :: bool
  st_foul_count :: int
  st_season_ppg :: "real option"
  st_projected_2h_points :: real
  st_projected_2h_minutes :: real
  st_hot_cold_indicator :: string
  st_minutes_risk :: string
  st_impact_on_team_total :: real

record TeamQuarterProjection =
  tq_team_abbr :: string
  tq_q1_actual :: "int option"
  tq_q2_actual :: "int option"
  tq_q3_projected :: real
  tq_q4_projected :: real
  tq_ot_probability :: real
  tq_projected_final_score :: real

record OverUnderRecommendation =
  ou_projected_total :: real
  ou_projected_range_low :: real
  ou_projected_range_high :: real
  ou_reference_line :: "real option"
  ou_edge :: real
  ou_edge_pct :: real
  ou_recommendation :: string
  ou_confidence :: real

text \<open>
  The dictionary \<open>aggregate_team_box_score\<close> (live\_data\_client.py) returns for one team.
\<close>

record team_agg =
  ag_total_points :: int
  ag_total_rebounds :: int
  ag_total_assists :: int
  ag_total_steals :: int
  ag_total_blocks :: int
  ag_total_turnovers :: int
  ag_total_fouls :: int
  ag_total_fg_made :: int
  ag_total_fg_attempted :: int
  ag_total_fg3_made :: int
  ag_total_fg3_attempted :: int
  ag_total_ft_made :: int
  ag_total_ft_attempted :: int
  ag_total_minutes :: real
  ag_team_fg_pct :: real
  ag_team_fg3_pct :: real
  ag_team_ft_pct :: real
  ag_estimated_possessions :: real

definition aggregate_team_box_score :: "LivePlayerStats list \<Rightarrow> team_agg" where
  "aggregate_team_box_score players =
     (let total_fga = sum_list (map ps_fg_attempted players);
          total_fta = sum_list (map ps_ft_attempted players);
          total_tov = sum_list (map ps_turnovers players)
      in \<lparr>ag_total_points = sum_list (map ps_points players),
          ag_total_rebounds = sum_list (map ps_rebounds players),
          ag_total_assists = sum_list (map ps_assists players),
          ag_total_steals = sum_list (map ps_steals players),
          ag_total_blocks = sum_list (map ps_blocks players),
          ag_total_turnovers = total_tov,
          ag_total_fouls = sum_list (map ps_fouls players),
          ag_total_fg_made = sum_list (map ps_fg_made players),
          ag_total_fg_attempted = total_fga,
          ag_total_fg3_made = sum_list (map ps_fg3_made players),
          ag_total_fg3_attempted = sum_list (map ps_fg3_attempted players),
          ag_total_ft_made = sum_list (map ps_ft_made players),
          ag_total_ft_attempted = total_fta,
          ag_total_minutes = sum_list (map ps_minutes_float players),
          ag_team_fg_pct =
            (of_int (sum_list (map ps_fg_made players)) / of_int (max total_fga 1)) * 100,
          ag_team_fg3_pct =
            (of_int (sum_list (map ps_fg3_made players))
               / of_int (max (sum_list (map ps_fg3_attempted players)) 1)) * 100,
          ag_team_ft_pct =
            (of_int (sum_list (map ps_ft_made players)) / of_int (max total_fta 1)) * 100,
          ag_estimated_possessions =
            of_int total_fga + 0.44 * of_int total_fta + of_int total_tov * 0.96\<rparr>)"

subsection \<open>Quarter projections\<close>

text \<open>
  The local variables of \<open>_project_quarters\<close>, before the rounding of the two returned
  records.
\<close>

record quarters_locals =
  ql_q4_factor :: real
  ql_combined_q3 :: real
  ql_combined_q4 :: real
  ql_home_share :: real
  ql_away_share :: real
  ql_home_q3 :: real
  ql_home_q4 :: real
  ql_away_q3 :: real
  ql_away_q4 :: real
  ql_home_proj_final :: real
  ql_away_proj_final :: real
  ql_ot_prob :: real

definition project_quarters_locals ::
  "real \<Rightarrow> LiveGameData \<Rightarrow> TeamRatings option \<Rightarrow> TeamRatings option \<Rightarrow> team_agg \<Rightarrow> team_agg
     \<Rightarrow> real \<Rightarrow> quarters_locals" where
  "project_quarters_locals projected_remaining game_data home_ratings away_ratings home_agg
     away_agg elapsed_min =
     (let diff = \<bar>gd_score_differential game_data\<bar>;
          period = gd_period game_data;
          q4_factor =
            (if diff \<ge> GT_BLOWOUT_THRESHOLD then Q4_BLOWOUT_FACTOR
             else if diff \<le> CLOSE_GAME_THRESHOLD then Q4_CLOSE_FACTOR
             else Q4_MODERATE_FACTOR);
          (combined_q3, combined_q4) =
            (if period \<ge> 4 then (0.0, projected_remaining)
             else if period \<ge> 3 then
               (let q3_elapsed = elapsed_min - 24.0;
                    q3_remaining_frac = max 0 ((12.0 - q3_elapsed) / 12.0);
                    q3_portion =
                      projected_remaining
                        * (q3_remaining_frac * GT_Q3_PACE_FACTOR / (GT_Q3_PACE_FACTOR + q4_factor))
                in (q3_portion, projected_remaining - q3_portion))
             else
               (let q3_share = GT_Q3_PACE_FACTOR / (GT_Q3_PACE_FACTOR + q4_factor);
                    q4_share = 1.0 - q3_share
                in (projected_remaining * q3_share, projected_remaining * q4_share)));
          (home_off, away_off) =
            (case (home_ratings, away_ratings) of
               (Some hr, Some ar) \<Rightarrow> (tr_off_rating hr, tr_off_rating ar)
             | _ \<Rightarrow>
                 (let total = ag_total_points home_agg + ag_total_points away_agg
                  in ((of_int (ag_total_points home_agg) / of_int (max total 1)) * 228,
                      (of_int (ag_total_points away_agg) / of_int (max total 1)) * 228)));
          home_share = home_off / max (home_off + away_off) 1;
          away_share = 1.0 - home_share;
          home_q3 = combined_q3 * home_share;
          home_q4 = combined_q4 * home_share;
          away_q3 = combined_q3 * away_share;
          away_q4 = combined_q4 * away_share;
          home_proj_final = of_int (gd_home_score game_data) + home_q3 + home_q4;
          away_proj_final = of_int (gd_away_score game_data) + away_q3 + away_q4;
          proj_margin = \<bar>home_proj_final - away_proj_final\<bar>;
          ot_prob = max 0 (min 25 (15 - proj_margin * 2))
      in \<lparr>ql_q4_factor = q4_factor,
          ql_combined_q3 = combined_q3,
          ql_combined_q4 = combined_q4,
          ql_home_share = home_share,
          ql_away_share = away_share,
          ql_home_q3 = home_q3,
          ql_home_q4 = home_q4,
          ql_away_q3 = away_q3,
          ql_away_q4 = away_q4,
          ql_home_proj_final = home_proj_final,
          ql_away_proj_final = away_proj_final,
          ql_ot_prob = ot_prob\<rparr>)"

definition project_quarters ::
  "real \<Rightarrow> LiveGameData \<Rightarrow> TeamRatings option \<Rightarrow> TeamRatings option \<Rightarrow> team_agg \<Rightarrow> team_agg
     \<Rightarrow> real \<Rightarrow> TeamQuarterProjection \<times> TeamQuarterProjection" where
  "project_quarters projected_remaining game_data home_ratings away_ratings home_agg away_agg
     elapsed_min =
     (let l = project_quarters_locals projected_remaining game_data home_ratings away_ratings
                home_agg away_agg elapsed_min;
          home_quarter =
            \<lparr>tq_team_abbr = gd_home_team_abbr game_data,
             tq_q1_actual = None,
             tq_q2_actual = None,
             tq_q3_projected = py_round (ql_home_q3 l) 1,
             tq_q4_projected = py_round (ql_home_q4 l) 1,
             tq_ot_probability = py_round (ql_ot_prob l) 1,
             tq_projected_final_score = py_round (ql_home_proj_final l) 1\<rparr>;
          away_quarter =
            \<lparr>tq_team_abbr = gd_away_team_abbr game_data,
             tq_q1_actual = None,
             tq_q2_actual = None,
             tq_q3_projected = py_round (ql_away_q3 l) 1,
             tq_q4_projected = py_round (ql_away_q4 l) 1,
             tq_ot_probability = py_round (ql_ot_prob l) 1,
             tq_projected_final_score = py_round (ql_away_proj_final l) 1\<rparr>
      in (home_quarter, away_quarter))"

subsection \<open>Over/under\<close>

text \<open>
  The local variables of \<open>_calculate_over_under\<close>: the reference line, the edge and the
  confidence before rounding, and the recommendation.
\<close>

record ou_locals =
  ol_line :: real
  ol_edge :: real
  ol_edge_pct :: real
  ol_confidence :: real
  ol_rec :: string

definition over_under_locals ::
  "real \<Rightarrow> real \<Rightarrow> real option \<Rightarrow> real \<Rightarrow> TeamShootingProfile \<Rightarrow> TeamShootingProfile
     \<Rightarrow> PaceAnalysis \<Rightarrow> ou_locals" where
  "over_under_locals projected_total variance reference_line season_avg_total home_s away_s
     pace =
     (let line =
            (if truthy reference_line then or_zero reference_line
             else of_int (round_half_even (season_avg_total * 2)) / 2);
          edge = projected_total - line;
          edge_pct = (edge / max line 1) * 100;
          confidence = 50.0;
          confidence = confidence + (if \<bar>pc_pace_deviation pace\<bar> < 5 then 10 else 0);
          confidence = confidence +
            (if sp_shooting_variance_level home_s = ''normal'' then 5 else 0);
          confidence = confidence +
            (if sp_shooting_variance_level away_s = ''normal'' then 5 else 0);
          confidence = confidence +
            (if \<bar>edge\<bar> > 4 then 10
             else if \<bar>edge\<bar> > 2 then 5
             else 0);
          confidence = max 20 (min 90 confidence);
          rec =
            (if edge > 4 \<and> confidence \<ge> 65 then ''strong_over''
             else if edge > 1.5 \<and> confidence \<ge> 50 then ''lean_over''
             else if edge < -4 \<and> confidence \<ge> 65 then ''strong_under''
             else if edge < -1.5 \<and> confidence \<ge> 50 then ''lean_under''
             else ''neutral'')
      in \<lparr>ol_line = line, ol_edge = edge, ol_edge_pct = edge_pct,
          ol_confidence = confidence, ol_rec = rec\<rparr>)"

definition calculate_over_under ::
  "real \<Rightarrow> real \<Rightarrow> real option \<Rightarrow> real \<Rightarrow> TeamShootingProfile \<Rightarrow> TeamShootingProfile
     \<Rightarrow> PaceAnalysis \<Rightarrow> OverUnderRecommendation" where
  "calculate_over_under projected_total variance reference_line season_avg_total home_s away_s
     pace =
     (let range_low = projected_total - variance;
          range_high = projected_total + variance;
          l = over_under_locals projected_total variance reference_line season_avg_total
                home_s away_s pace
      in \<lparr>ou_projected_total = py_round projected_total 1,
          ou_projected_range_low = py_round range_low 1,
          ou_projected_range_high = py_round range_high 1,
          ou_reference_line = Some (ol_line l),
          ou_edge = py_round (ol_edge l) 1,
          ou_edge_pct = py_round (ol_edge_pct l) 1,
          ou_recommendation = ol_rec l,
          ou_confidence = py_round (ol_confidence l) 1\<rparr>)"

subsection \<open>Overall confidence\<close>

definition calculate_total_confidence ::
  "PaceAnalysis \<Rightarrow> TeamShootingProfile \<Rightarrow> TeamShootingProfile \<Rightarrow> StarPlayerImpact list \<Rightarrow> bool
     \<Rightarrow> bool \<Rightarrow> real" where
  "calculate_total_confidence pace home_s away_s stars blowout_risk is_close =
     (let confidence = 50.0;
          confidence = confidence +
            (if \<bar>pc_pace_deviation pace\<bar> < 5 then 12
             else if \<bar>pc_pace_deviation pace\<bar> < 10 then 6
             else -8);
          confidence = confidence +
            (if sp_shooting_variance_level home_s = ''normal'' then 5
             else if sp_shooting_variance_level home_s \<in> set [''extreme_hot'', ''extreme_cold'']
             then -6
             else 0);
          confidence = confidence +
            (if sp_shooting_variance_level away_s = ''normal'' then 5
             else if sp_shooting_variance_level away_s \<in> set [''extreme_hot'', ''extreme_cold'']
             then -6
             else 0);
          foul_trouble_count = length (filter st_foul_trouble stars);
          confidence = confidence +
            (if foul_trouble_count > 0 then - (real foul_trouble_count * 4) else 0);
          confidence = confidence + (if blowout_risk then -12 else 0);
          confidence = confidence + (if is_close then -3 else 0)
      in max 15 (min 95 confidence))"

section \<open>Reference notions of the specification\<close>

text \<open>
  The order of the recommendations:
  \<open>strong_avoid < avoid < neutral < lean < bet < strong_bet\<close>.
\<close>

definition recommendation_rank :: "string \<Rightarrow> nat" where
  "recommendation_rank r =
     (if r = ''strong_avoid'' then 0
      else if r = ''avoid'' then 1
      else if r = ''neutral'' then 2
      else if r = ''lean'' then 3
      else if r = ''bet'' then 4
      else if r = ''strong_bet'' then 5
      else 6)"

text \<open>
  The hit rate in the words of the specification.  A game has a value for the stat when
  its record holds the stat key with a value that is not null.  A hit is a game whose value
  for the stat is a number strictly above the line for the direction \<open>over\<close>, strictly
  below it for \<open>under\<close>.  The hit rate is the number of hits divided by the number of
  games that have a value, times 100, and 0 when no game has one.
\<close>

definition has_stat_value :: "string \<Rightarrow> game \<Rightarrow> bool" where
  "has_stat_value stat_key game =
     (case map_of game stat_key of None \<Rightarrow> False | Some v \<Rightarrow> v \<noteq> PNone)"

definition satisfies_direction :: "string \<Rightarrow> real \<Rightarrow> string \<Rightarrow> game \<Rightarrow> bool" where
  "satisfies_direction direction line stat_key game =
     (case map_of game stat_key of
        Some (PNum x) \<Rightarrow> (direction = ''over'' \<and> x > line) \<or> (direction = ''under'' \<and> x < line)
      | Some (PStr s) \<Rightarrow> False
      | Some PNone \<Rightarrow> False
      | None \<Rightarrow> False)"

definition spec_hit_rate :: "game list \<Rightarrow> PropBetData \<Rightarrow> real" where
  "spec_hit_rate games prop =
     (let stat_key = stat_key_of (pb_stat_type prop);
          valid_games = length (filter (has_stat_value stat_key) games);
          hits =
            length (filter (satisfies_direction (pb_over_under prop) (pb_line prop) stat_key)
                      games)
      in if valid_games = 0 then 0 else real hits / real valid_games * 100)"

text \<open>
  What the loop of \<open>_calculate_hit_rate\<close> does with one game: it reads
  \<open>game.get(stat_key, 0)\<close>, so that a game without the key is read as 0; it counts
  every value that is not null; it counts as a hit a number on the right side of the line;
  and it raises on a string when the direction is \<open>over\<close> or \<open>under\<close>.
\<close>

definition stat_value_of :: "string \<Rightarrow> game \<Rightarrow> pyval" where
  "stat_value_of stat_key game = dict_get game stat_key (PNum 0)"

definition is_hit :: "string \<Rightarrow> real \<Rightarrow> pyval \<Rightarrow> bool" where
  "is_hit direction line v =
     (case v of
        PNum x \<Rightarrow> (direction = ''over'' \<and> x > line) \<or> (direction = ''under'' \<and> x < line)
      | PNone \<Rightarrow> False
      | PStr s \<Rightarrow> False)"

definition is_string :: "pyval \<Rightarrow> bool" where
  "is_string v = (case v of PStr s \<Rightarrow> True | PNum x \<Rightarrow> False | PNone \<Rightarrow> False)"

definition compares_with_line :: "PropBetData \<Rightarrow> bool" where
  "compares_with_line prop = (pb_over_under prop = ''over'' \<or> pb_over_under prop = ''under'')"

text \<open>A game record that holds the stat key, with a number or null.\<close>

definition holds_number_or_null :: "string \<Rightarrow> game \<Rightarrow> bool" where
  "holds_number_or_null stat_key game =
     (case map_of game stat_key of
        Some (PNum x) \<Rightarrow> True
      | Some PNone \<Rightarrow> True
      | Some (PStr s) \<Rightarrow> False
      | None \<Rightarrow> False)"

text \<open>
  The over/under bands on the edge and the confidence: \<open>strong_over\<close> when the edge
  exceeds 4 and the confidence is at least 65, \<open>lean_over\<close> when the edge exceeds 1.5
  and the confidence is at least 50, the mirrored bands for negative edges, and
  \<open>neutral\<close> otherwise; the first band that applies is taken.
\<close>

definition over_under_band :: "real \<Rightarrow> real \<Rightarrow> string" where
  "over_under_band edge confidence =
     (if edge > 4 \<and> confidence \<ge> 65 then ''strong_over''
      else if edge > 1.5 \<and> confidence \<ge> 50 then ''lean_over''
      else if edge < -4 \<and> confidence \<ge> 65 then ''strong_under''
      else if edge < -1.5 \<and> confidence \<ge> 50 then ''lean_under''
      else ''neutral'')"

section \<open>Example inputs\<close>

text \<open>A prop without a player id.\<close>

definition example_prop :: PropBetData where
  "example_prop =
     \<lparr>pb_prop_id = 1, pb_player_name = ''Sam Example'', pb_player_id = None,
      pb_stat_type = ''Points'', pb_line = 15, pb_over_under = ''over'',
      pb_opponent_name = None, pb_game_date = None\<rparr>"

text \<open>An environment whose service is down, and one that knows the player but has no games.\<close>

definition env_down :: env where
  "env_down =
     \<lparr>sv_search_player = (\<lambda>name. Inl Timeout),
      sv_player_stats = (\<lambda>player_id limit. Inl Timeout),
      sv_search_team = (\<lambda>name. Inl Timeout),
      lib_int = (\<lambda>s. None),
      lib_float = (\<lambda>s. None),
      lib_polyfit_single = (\<lambda>y. Inl LinAlgError)\<rparr>"

definition env_no_games :: env where
  "env_no_games =
     env_down\<lparr>sv_search_player := (\<lambda>name. Inr (Some \<lparr>pl_id = Some 7\<rparr>)),
              sv_player_stats := (\<lambda>player_id limit. Inr [])\<rparr>"

text \<open>
  Ten games with exactly 20 points and 3 turnovers each, as the stats provider records
  them: the turnovers under the key \<open>turnover\<close>, the minutes as a string.
\<close>

definition twenty_points :: game where
  "twenty_points = [(''pts'', PNum 20), (''turnover'', PNum 3), (''min'', PStr ''34:25'')]"

definition ten_games :: "game list" where
  "ten_games =
     [twenty_points, twenty_points, twenty_points, twenty_points, twenty_points,
      twenty_points, twenty_points, twenty_points, twenty_points, twenty_points]"

text \<open>
  A prop on turnovers, a stat type \<open>STAT_TYPE_MAP\<close> has no entry for, so that the stat key
  is \<open>turnovers\<close>; and a prop on the minutes.
\<close>

definition turnovers_under :: PropBetData where
  "turnovers_under =
     \<lparr>pb_prop_id = 2, pb_player_name = ''Sam Example'', pb_player_id = Some 7,
      pb_stat_type = ''turnovers'', pb_line = 2.5, pb_over_under = ''under'',
      pb_opponent_name = None, pb_game_date = None\<rparr>"

definition minutes_over :: PropBetData where
  "minutes_over =
     \<lparr>pb_prop_id = 3, pb_player_name = ''Sam Example'', pb_player_id = Some 7,
      pb_stat_type = ''min'', pb_line = 30, pb_over_under = ''over'',
      pb_opponent_name = None, pb_game_date = None\<rparr>"

text \<open>
  A pace on the expected value and two teams shooting hot, for an over/under with edge 5
  and confidence 70.
\<close>

definition steady_pace :: PaceAnalysis where
  "steady_pace =
     \<lparr>pc_first_half_possessions_est = 50, pc_possessions_per_48_live = 100,
      pc_points_per_possession_home = 1.1, pc_points_per_possession_away = 1.1,
      pc_home_season_pace = 100, pc_away_season_pace = 100, pc_matchup_expected_pace = 100,
      pc_pace_deviation = 0, pc_pace_trend = ''steady'', pc_q1_pace = None,
      pc_q2_pace = None, pc_transition_rate = 0\<rparr>"

definition hot_team :: TeamShootingProfile where
  "hot_team =
     \<lparr>sp_team_abbr = ''AAA'', sp_live_efg_pct = 57, sp_live_ts_pct = 60,
      sp_live_fg3_rate = 38, sp_live_fg3_pct = 40, sp_live_ft_rate = 25,
      sp_live_ft_pct = 80, sp_season_efg_pct = 52.5, sp_season_ts_pct = 57.5,
      sp_season_fg3_rate = 38, sp_season_fg3_pct = 36, sp_season_ft_rate = 25,
      sp_shooting_regression_factor = 1, sp_shooting_variance_level = ''hot''\<rparr>"

text \<open>
  A world with one live game and one player in its box score, in which the season-stats
  and team-ratings providers fail.
\<close>

definition example_game :: LiveGameData where
  "example_game =
     \<lparr>gd_game_id = ''0022400001'', gd_game_status = 2, gd_game_status_text = ''Halftime'',
      gd_period = 2, gd_game_clock = [], gd_home_team_id = 1, gd_home_team_name = ''Home'',
      gd_home_team_abbr = ''HOM'', gd_home_score = 60, gd_away_team_id = 2,
      gd_away_team_name = ''Away'', gd_away_team_abbr = ''AWY'', gd_away_score = 55,
      gd_game_date = ''20250101'', gd_game_time_utc = None, gd_is_halftime = True\<rparr>"

definition example_player :: LivePlayerStats where
  "example_player =
     \<lparr>ps_player_id = 11, ps_player_name = ''Sam Example'', ps_team_id = 1,
      ps_team_abbreviation = ''HOM'', ps_minutes = ''PT18M00.00S'', ps_minutes_float = 18,
      ps_points = 14, ps_rebounds = 4, ps_assists = 3, ps_steals = 1, ps_blocks = 0,
      ps_turnovers = 1, ps_fouls = 2, ps_fg_made = 5, ps_fg_attempted = 10, ps_fg_pct = 50,
      ps_fg3_made = 2, ps_fg3_attempted = 5, ps_fg3_pct = 40, ps_ft_made = 2,
      ps_ft_attempted = 2, ps_ft_pct = 100, ps_plus_minus = 6, ps_starter = True\<rparr>"

definition failing_world :: "unit world" where
  "failing_world =
     \<lparr>w_scoreboard = Inr [example_game],
      w_boxscore = (\<lambda>game_id. Inr \<lparr>bs_home = [example_player], bs_away = []\<rparr>),
      w_team_ratings = (\<lambda>team_id. \<lparr>rf_advanced = Inl Timeout, rf_opponent = Inl Timeout\<rparr>),
      w_season_stats = (\<lambda>player_id. Inl RequestFailed),
      w_back_to_back = (\<lambda>team_id. Inl Timeout),
      w_enhanced_totals = (\<lambda>game_data box_score home_ratings away_ratings. Inl RequestFailed),
      w_utcnow = ''2025-01-01T01:00:00''\<rparr>"

section \<open>Verified properties\<close>

subsection \<open>Auxiliary facts\<close>

lemma round_half_even_floor:
  "\<lfloor>x\<rfloor> \<le> round_half_even x \<and> round_half_even x \<le> \<lfloor>x\<rfloor> + 1"
  by (simp add: round_half_even_def Let_def)

lemma round_half_even_of_int: "round_half_even (of_int k) = k"
  by (simp add: round_half_even_def Let_def)

lemma round_half_even_ge:
  assumes "of_int k \<le> x"
  shows "k \<le> round_half_even x"
proof -
  have "k \<le> \<lfloor>x\<rfloor>" using assms by (simp add: le_floor_iff)
  then show ?thesis using round_half_even_floor [of x] by linarith
qed

lemma round_half_even_le:
  assumes "x \<le> of_int k"
  shows "round_half_even x \<le> k"
proof (cases "x = of_int k")
  case True
  then show ?thesis by (simp add: round_half_even_of_int)
next
  case False
  then have "x < of_int k" using assms by simp
  then have "\<lfloor>x\<rfloor> < k" by (simp add: floor_less_iff)
  then show ?thesis using round_half_even_floor [of x] by linarith
qed

text \<open>Rounding to \<open>n\<close> decimals keeps a value of the interval \<open>[0, 100]\<close> inside it.\<close>

lemma py_round_bounds:
  assumes "0 \<le> x" and "x \<le> 100"
  shows "0 \<le> py_round x n \<and> py_round x n \<le> 100"
proof -
  have "of_int 0 \<le> x * 10 ^ n" using assms by simp
  then have lower: "0 \<le> round_half_even (x * 10 ^ n)" by (rule round_half_even_ge)
  have "x * 10 ^ n \<le> of_int (100 * 10 ^ n)" using assms by simp
  then have "round_half_even (x * 10 ^ n) \<le> 100 * 10 ^ n" by (rule round_half_even_le)
  then have "real_of_int (round_half_even (x * 10 ^ n)) \<le> real_of_int (100 * 10 ^ n)"
    using of_int_le_iff by blast
  then have "py_round x n \<le> 100" unfolding py_round_def by (simp add: divide_le_eq)
  moreover from lower have "0 \<le> py_round x n" unfolding py_round_def by simp
  ultimately show ?thesis by simp
qed

lemma clamp_bounds: "0 \<le> max 0 (min 100 (x::real)) \<and> max 0 (min 100 x) \<le> 100"
  by simp

lemma clip_bounds: "0 \<le> np_clip x 0 100 \<and> np_clip x 0 100 \<le> 100"
  by (simp add: np_clip_def)

lemma clamp_15_95: "15 \<le> max 15 (min 95 (x::real)) \<and> max 15 (min 95 x) \<le> 95"
  by simp

lemma rank_values:
  "recommendation_rank ''strong_avoid'' = 0" "recommendation_rank ''avoid'' = 1"
  "recommendation_rank ''neutral'' = 2" "recommendation_rank ''lean'' = 3"
  "recommendation_rank ''bet'' = 4" "recommendation_rank ''strong_bet'' = 5"
  by (simp_all add: recommendation_rank_def)

subsection \<open>Confidence scores\<close>

lemma prop_confidence_bounds:
  "0 \<le> calculate_confidence hit_rate factors avg_stat line
   \<and> calculate_confidence hit_rate factors avg_stat line \<le> 100"
  unfolding calculate_confidence_def Let_def by (rule clip_bounds)

lemma player_confidence_bounds:
  "0 \<le> fst (calculate_confidence_score projected_final prop_line first_half_value
             historical_consistency shooting_metrics foul_trouble blowout_warning
             utilization_rate plus_minus opponent_def_rank assist_to_turnover)
   \<and> fst (calculate_confidence_score projected_final prop_line first_half_value
             historical_consistency shooting_metrics foul_trouble blowout_warning
             utilization_rate plus_minus opponent_def_rank assist_to_turnover) \<le> 100"
  unfolding calculate_confidence_score_def Let_def fst_conv by (rule clamp_bounds)

lemma basic_totals_confidence_bounds:
  "0 \<le> tl_total_confidence (game_totals_locals game_data)
   \<and> tl_total_confidence (game_totals_locals game_data) \<le> 100"
  unfolding game_totals_locals_def Let_def totals_locals.select_convs by (rule clamp_bounds)

lemma basic_totals_confidence_rounded:
  "gt_total_confidence (analyze_game_totals game_data box_score home_ratings away_ratings)
   = py_round (tl_total_confidence (game_totals_locals game_data)) 1"
  by (simp add: analyze_game_totals_def Let_def)

lemma advanced_totals_confidence_bounds:
  "15 \<le> calculate_total_confidence pace home_s away_s stars blowout_risk is_close
   \<and> calculate_total_confidence pace home_s away_s stars blowout_risk is_close \<le> 95"
  unfolding calculate_total_confidence_def Let_def by (rule clamp_15_95)

text \<open>
  The confidence stored in the returned records is the clamped score rounded, and stays in
  the interval: for a player projection and for a prop analysis (whose default result has
  confidence 50).
\<close>

lemma player_projection_confidence_bounds:
  "0 \<le> pp_confidence_score (fst (analyze_halftime_player w cache live_stats prop_line
            prop_type game_data team_stats opponent_team_id opponent_abbr team_ratings is_b2b))
   \<and> pp_confidence_score (fst (analyze_halftime_player w cache live_stats prop_line
            prop_type game_data team_stats opponent_team_id opponent_abbr team_ratings is_b2b))
       \<le> 100"
proof -
  have "\<exists>pf pl fhv hc sm ft bw ur pm odr atr.
     pp_confidence_score (fst (analyze_halftime_player w cache live_stats prop_line prop_type
       game_data team_stats opponent_team_id opponent_abbr team_ratings is_b2b))
     = py_round (fst (calculate_confidence_score pf pl fhv hc sm ft bw ur pm odr atr)) 1"
    unfolding analyze_halftime_player_def Let_def case_prod_beta fst_conv
      PlayerProjection.select_convs
    by blast
  then show ?thesis
    using py_round_bounds player_confidence_bounds by metis
qed

lemma prop_analysis_confidence_bounds:
  assumes "analyze_prop env p = Inr a"
  shows "0 \<le> pa_confidence_score a \<and> pa_confidence_score a \<le> 100"
proof -
  have rounded: "0 \<le> py_round (calculate_confidence h f s l) 2
                 \<and> py_round (calculate_confidence h f s l) 2 \<le> 100" for h f s l
    using prop_confidence_bounds [of h f s l] by (intro py_round_bounds) simp_all
  show ?thesis
    using assms rounded unfolding analyze_prop_def Let_def
    by (auto split: option.splits if_splits sum.splits simp: create_default_analysis_def)
qed

text \<open>
  C1. Every confidence score lies in \<open>[0, 100]\<close>, for every input: the prop-analysis
  confidence, the live player-projection confidence, the basic game-total confidence (as
  computed and as returned, rounded to one decimal) and the advanced overall confidence,
  whose clamp is the narrower \<open>[15, 95]\<close>.
\<close>

theorem confidence_scores_in_range:
  "(0 \<le> calculate_confidence hit_rate factors avg_stat line
      \<and> calculate_confidence hit_rate factors avg_stat line \<le> 100)
   \<and> (0 \<le> fst (calculate_confidence_score projected_final prop_line first_half_value
                  historical_consistency shooting_metrics foul_trouble blowout_warning
                  utilization_rate plus_minus opponent_def_rank assist_to_turnover)
      \<and> fst (calculate_confidence_score projected_final prop_line first_half_value
                  historical_consistency shooting_metrics foul_trouble blowout_warning
                  utilization_rate plus_minus opponent_def_rank assist_to_turnover) \<le> 100)
   \<and> (0 \<le> tl_total_confidence (game_totals_locals game_data)
      \<and> tl_total_confidence (game_totals_locals game_data) \<le> 100)
   \<and> (0 \<le> gt_total_confidence
               (analyze_game_totals game_data box_score home_ratings away_ratings)
      \<and> gt_total_confidence
               (analyze_game_totals game_data box_score home_ratings away_ratings) \<le> 100)
   \<and> (0 \<le> calculate_total_confidence pace home_s away_s stars blowout_risk is_close
      \<and> calculate_total_confidence pace home_s away_s stars blowout_risk is_close \<le> 100)"
proof -
  have rounded:
    "0 \<le> gt_total_confidence
             (analyze_game_totals game_data box_score home_ratings away_ratings)
     \<and> gt_total_confidence
             (analyze_game_totals game_data box_score home_ratings away_ratings) \<le> 100"
    unfolding basic_totals_confidence_rounded
    using basic_totals_confidence_bounds [of game_data] by (intro py_round_bounds) simp_all
  have advanced:
    "0 \<le> calculate_total_confidence pace home_s away_s stars blowout_risk is_close
     \<and> calculate_total_confidence pace home_s away_s stars blowout_risk is_close \<le> 100"
    using advanced_totals_confidence_bounds [of pace home_s away_s stars blowout_risk is_close]
    by linarith
  show ?thesis
    using prop_confidence_bounds player_confidence_bounds basic_totals_confidence_bounds
      rounded advanced
    by blast
qed

subsection \<open>Weight tables\<close>



subsection \<open>Recommendation bands\<close>

lemma generate_recommendation_mono:
  "c1 \<le> c2 \<Longrightarrow>
   recommendation_rank (generate_recommendation c1 over_under)
     \<le> recommendation_rank (generate_recommendation c2 over_under)"
  unfolding generate_recommendation_def by (simp add: rank_values)

lemma determine_recommendation_mono:
  "c1 \<le> c2 \<Longrightarrow>
   recommendation_rank (determine_recommendation distance c1)
     \<le> recommendation_rank (determine_recommendation distance c2)"
  unfolding determine_recommendation_def by (simp add: rank_values)

lemma confidence_score_recommendation:
  "snd (calculate_confidence_score projected_final prop_line first_half_value
          historical_consistency shooting_metrics foul_trouble blowout_warning
          utilization_rate plus_minus opponent_def_rank assist_to_turnover)
   = determine_recommendation (projected_final - prop_line)
       (fst (calculate_confidence_score projected_final prop_line first_half_value
               historical_consistency shooting_metrics foul_trouble blowout_warning
               utilization_rate plus_minus opponent_def_rank assist_to_turnover))"
  unfolding calculate_confidence_score_def Let_def fst_conv snd_conv by (rule refl)

text \<open>
  C5. For a fixed direction the recommendation never decreases when the confidence
  increases: this holds for the bands of the prop analyzer, which ignore the direction, and
  for the live projector's classification on either side of the line (the sign of
  \<open>distance\<close>).  The live projector's recommendation is that classification applied to
  its clamped confidence.
\<close>

theorem recommendation_monotone_in_confidence:
  assumes "c1 \<le> c2"
  shows "recommendation_rank (generate_recommendation c1 over_under)
           \<le> recommendation_rank (generate_recommendation c2 over_under)
         \<and> recommendation_rank (determine_recommendation distance c1)
             \<le> recommendation_rank (determine_recommendation distance c2)
         \<and> snd (calculate_confidence_score projected_final prop_line first_half_value
                  historical_consistency shooting_metrics foul_trouble blowout_warning
                  utilization_rate plus_minus opponent_def_rank assist_to_turnover)
             = determine_recommendation (projected_final - prop_line)
                 (fst (calculate_confidence_score projected_final prop_line first_half_value
                         historical_consistency shooting_metrics foul_trouble blowout_warning
                         utilization_rate plus_minus opponent_def_rank assist_to_turnover))"
  using assms generate_recommendation_mono determine_recommendation_mono
    confidence_score_recommendation
  by blast

theorem recommendation_monotone_in_confidence_witness:
  "(44::real) \<le> 75
   \<and> recommendation_rank (generate_recommendation 44 ''over'')
       \<le> recommendation_rank (generate_recommendation 75 ''over'')
   \<and> recommendation_rank (determine_recommendation 1 44)
       \<le> recommendation_rank (determine_recommendation 1 75)
   \<and> recommendation_rank (determine_recommendation (-1) 44)
       \<le> recommendation_rank (determine_recommendation (-1) 75)"
proof -
  have h: "(44::real) \<le> 75" by simp
  show ?thesis
    using h recommendation_monotone_in_confidence [OF h, of "''over''" 1]
      recommendation_monotone_in_confidence [OF h, of "''over''" "-1"]
    by simp
qed

subsection \<open>Quarter split\<close>













subsection \<open>Risk flags\<close>

text \<open>
  C7. The risk flags sit exactly at their thresholds: \<open>foul_trouble\<close> holds if and only if
  the player has at least 3 fouls, or has played and commits more than 0.125 fouls per
  minute; \<open>blowout_warning\<close> holds if and only if the absolute score differential is at
  least 20.
\<close>

theorem risk_flags_at_thresholds:
  "(detect_foul_trouble fouls minutes
      \<longleftrightarrow> fouls \<ge> 3 \<or> (minutes > 0 \<and> of_int fouls / minutes > 0.125))
   \<and> (detect_blowout score_diff \<longleftrightarrow> \<bar>score_diff\<bar> \<ge> 20)"
  by (simp add: detect_foul_trouble_def detect_blowout_def FOUL_TROUBLE_THRESHOLD_def
      BLOWOUT_THRESHOLD_def)

text \<open>
  The spec's examples: 3 fouls in 10 minutes is foul trouble; a differential of exactly 20
  is a blowout and one of 19 is not.
\<close>

theorem risk_flags_at_thresholds_witness:
  "detect_foul_trouble 3 10 \<and> detect_blowout 20 \<and> \<not> detect_blowout 19"
  using risk_flags_at_thresholds [of 3 10 20] risk_flags_at_thresholds [of 3 10 19]
  by simp

subsection \<open>Projected second-half minutes\<close>

text \<open>
  C6. The projected second-half minutes are the first-half minutes, multiplied by 0.75
  under foul trouble, and under a blowout additionally by 0.70 for a starter or by 1.15 for
  a bench player; the result is capped at 24 minutes.  This holds for every first-half
  minutes value, the non-negative ones included.
\<close>

theorem minutes_projection_formula:
  "calculate_minutes_projection first_half_minutes foul_trouble blowout_warning is_starter =
     min (first_half_minutes
            * (if foul_trouble then 0.75 else 1)
            * (if blowout_warning then (if is_starter then 0.70 else 1.15) else 1))
         24
   \<and> calculate_minutes_projection first_half_minutes foul_trouble blowout_warning is_starter
       \<le> 24"
  by (simp add: calculate_minutes_projection_def Let_def)

subsection \<open>Default analysis of a prop\<close>

lemma default_analysis_fields:
  "pa_confidence_score (create_default_analysis p reason) = 50
   \<and> pa_hit_rate_last_10 (create_default_analysis p reason) = 50
   \<and> pa_average_stat (create_default_analysis p reason) = pb_line p
   \<and> pa_recommendation (create_default_analysis p reason) = ''neutral''
   \<and> pa_analysis_notes (create_default_analysis p reason)
       = Some (''Unable to analyze: '' @ reason)
   \<and> ''Unable to analyze: '' @ reason \<noteq> []"
  by (simp add: create_default_analysis_def)

lemma unresolved_player_default:
  "\<not> id_truthy (resolve_player_id env p) \<Longrightarrow>
   analyze_prop env p = Inr (create_default_analysis p ''Player not found in database'')"
  by (simp add: analyze_prop_def id_truthy_def split: option.splits)

lemma no_games_default:
  "resolve_player_id env p = Some pid \<Longrightarrow> pid \<noteq> 0 \<Longrightarrow>
   get_player_stats env pid 10 = [] \<Longrightarrow>
   analyze_prop env p = Inr (create_default_analysis p ''No recent game data available'')"
  by (simp add: analyze_prop_def Let_def)

text \<open>
  C3. When the player identity cannot be resolved (the prop has no id and the search by
  name gives none), or the player is resolved and no historical games are available,
  \<open>analyze_prop\<close> returns (it does not raise) the default result: confidence 50, hit
  rate 50, average equal to the prop's line, recommendation \<open>neutral\<close>, and a non-empty
  note naming the reason.
\<close>

theorem analyze_prop_default:
  assumes "\<not> id_truthy (resolve_player_id env p)
           \<or> (\<exists>pid. resolve_player_id env p = Some pid \<and> pid \<noteq> 0
                 \<and> get_player_stats env pid 10 = [])"
  shows "\<exists>a note. analyze_prop env p = Inr a
           \<and> pa_confidence_score a = 50
           \<and> pa_hit_rate_last_10 a = 50
           \<and> pa_average_stat a = pb_line p
           \<and> pa_recommendation a = ''neutral''
           \<and> pa_analysis_notes a = Some note \<and> note \<noteq> []
           \<and> (a = create_default_analysis p ''Player not found in database''
                \<or> a = create_default_analysis p ''No recent game data available'')"
  using assms
proof
  assume "\<not> id_truthy (resolve_player_id env p)"
  then have "analyze_prop env p
             = Inr (create_default_analysis p ''Player not found in database'')"
    by (rule unresolved_player_default)
  then show ?thesis
    using default_analysis_fields [of p "''Player not found in database''"] by blast
next
  assume "\<exists>pid. resolve_player_id env p = Some pid \<and> pid \<noteq> 0
            \<and> get_player_stats env pid 10 = []"
  then have "analyze_prop env p
             = Inr (create_default_analysis p ''No recent game data available'')"
    using no_games_default by blast
  then show ?thesis
    using default_analysis_fields [of p "''No recent game data available''"] by blast
qed

text \<open>
  Both cases at concrete inputs: a service that is down, so that the player is not found,
  and a service that finds the player and has no games for it.
\<close>

theorem analyze_prop_default_witness:
  "\<not> id_truthy (resolve_player_id env_down example_prop)
   \<and> (\<exists>a. analyze_prop env_down example_prop = Inr a \<and> pa_confidence_score a = 50
          \<and> pa_average_stat a = 15 \<and> pa_recommendation a = ''neutral'')
   \<and> resolve_player_id env_no_games example_prop = Some 7
   \<and> get_player_stats env_no_games 7 10 = []
   \<and> (\<exists>a. analyze_prop env_no_games example_prop = Inr a \<and> pa_confidence_score a = 50
          \<and> pa_average_stat a = 15 \<and> pa_recommendation a = ''neutral'')"
proof -
  have down: "\<not> id_truthy (resolve_player_id env_down example_prop)"
    by (simp add: resolve_player_id_def id_truthy_def search_player_def env_down_def
        example_prop_def)
  have found: "resolve_player_id env_no_games example_prop = Some 7"
    by (simp add: resolve_player_id_def id_truthy_def search_player_def env_no_games_def
        env_down_def example_prop_def)
  have none: "get_player_stats env_no_games 7 10 = []"
    by (simp add: get_player_stats_def env_no_games_def env_down_def)
  have line: "pb_line example_prop = 15"
    by (simp add: example_prop_def)
  have first: "\<exists>a. analyze_prop env_down example_prop = Inr a \<and> pa_confidence_score a = 50
                 \<and> pa_average_stat a = 15 \<and> pa_recommendation a = ''neutral''"
    using analyze_prop_default [of env_down example_prop] down line by auto
  have second: "\<exists>a. analyze_prop env_no_games example_prop = Inr a
                  \<and> pa_confidence_score a = 50
                  \<and> pa_average_stat a = 15 \<and> pa_recommendation a = ''neutral''"
    using analyze_prop_default [of env_no_games example_prop] found none line by auto
  show ?thesis using down found none first second by blast
qed

subsection \<open>Hit rate\<close>

text \<open>
  The loop, on every list of games: it raises \<open>TypeError\<close> when it compares with the
  line and some game holds a string; otherwise it returns the number of hits and the number
  of values that are not null, among the values it reads.
\<close>

lemma hit_rate_loop_step:
  "hit_rate_loop (game # games) stat_key p hits valid_games =
     (case stat_value_of stat_key game of
        PNone \<Rightarrow> hit_rate_loop games stat_key p hits valid_games
      | PNum stat_value \<Rightarrow>
          if is_hit (pb_over_under p) (pb_line p) (PNum stat_value)
          then hit_rate_loop games stat_key p (hits + 1) (valid_games + 1)
          else hit_rate_loop games stat_key p hits (valid_games + 1)
      | PStr s \<Rightarrow>
          if compares_with_line p then Inl TypeError
          else hit_rate_loop games stat_key p hits (valid_games + 1))"
  by (simp add: stat_value_of_def is_hit_def compares_with_line_def split: pyval.splits)

lemma is_hit_simps:
  "is_hit direction line PNone = False"
  "is_hit direction line (PStr s) = False"
  "is_string PNone = False"
  "is_string (PNum x) = False"
  "is_string (PStr s) = True"
  by (simp_all add: is_hit_def is_string_def)

lemma hit_rate_loop_result:
  "hit_rate_loop games stat_key p hits valid_games =
     (if compares_with_line p \<and> list_ex (\<lambda>game. is_string (stat_value_of stat_key game)) games
      then Inl TypeError
      else Inr (hits + length (filter (\<lambda>game. is_hit (pb_over_under p) (pb_line p)
                                                (stat_value_of stat_key game)) games),
                valid_games
                  + length (filter (\<lambda>game. stat_value_of stat_key game \<noteq> PNone) games)))"
proof (induction games arbitrary: hits valid_games)
  case Nil
  then show ?case by simp
next
  case (Cons game games)
  show ?case
  proof (cases "stat_value_of stat_key game")
    case PNone
    then show ?thesis
      by (simp add: hit_rate_loop_step Cons.IH is_hit_simps del: hit_rate_loop.simps)
  next
    case (PNum x)
    then show ?thesis
      by (simp add: hit_rate_loop_step Cons.IH is_hit_simps del: hit_rate_loop.simps)
  next
    case (PStr s)
    then show ?thesis
      by (simp add: hit_rate_loop_step Cons.IH is_hit_simps del: hit_rate_loop.simps)
  qed
qed

lemma hit_rate_as_computed:
  "calculate_hit_rate games p =
     (if compares_with_line p
         \<and> list_ex (\<lambda>game. is_string (stat_value_of (stat_key_of (pb_stat_type p)) game)) games
      then Inl TypeError
      else Inr (if length (filter (\<lambda>game. stat_value_of (stat_key_of (pb_stat_type p)) game
                                       \<noteq> PNone) games) = 0
                then 0
                else real (length (filter (\<lambda>game. is_hit (pb_over_under p) (pb_line p)
                                      (stat_value_of (stat_key_of (pb_stat_type p)) game)) games))
                     / real (length (filter (\<lambda>game. stat_value_of
                                      (stat_key_of (pb_stat_type p)) game \<noteq> PNone) games))
                     * 100))"
  unfolding calculate_hit_rate_def Let_def hit_rate_loop_result by simp

lemma held_value_read:
  assumes "holds_number_or_null stat_key game"
  shows "\<not> is_string (stat_value_of stat_key game)"
    and "(stat_value_of stat_key game \<noteq> PNone) = has_stat_value stat_key game"
    and "is_hit direction line (stat_value_of stat_key game)
         = satisfies_direction direction line stat_key game"
  using assms
  by (auto simp: holds_number_or_null_def stat_value_of_def dict_get_def is_string_def
      has_stat_value_def is_hit_def satisfies_direction_def
      split: option.splits pyval.splits)

text \<open>
  Where every game holds the stat key with a number or null, the analyzer computes the
  specified hit rate.
\<close>

lemma hit_rate_when_key_held:
  assumes "list_all (holds_number_or_null (stat_key_of (pb_stat_type p))) games"
  shows "calculate_hit_rate games p = Inr (spec_hit_rate games p)"
proof -
  let ?k = "stat_key_of (pb_stat_type p)"
  have held: "\<And>game. game \<in> set games \<Longrightarrow> holds_number_or_null ?k game"
    using assms by (simp add: list_all_iff)
  have no_string: "\<not> list_ex (\<lambda>game. is_string (stat_value_of ?k game)) games"
    using held held_value_read(1) by (auto simp: list_ex_iff)
  have valid: "filter (\<lambda>game. stat_value_of ?k game \<noteq> PNone) games
               = filter (has_stat_value ?k) games"
    using held held_value_read(2) by (intro filter_cong) auto
  have hits: "filter (\<lambda>game. is_hit (pb_over_under p) (pb_line p) (stat_value_of ?k game)) games
              = filter (satisfies_direction (pb_over_under p) (pb_line p) ?k) games"
    using held held_value_read(3) by (intro filter_cong) auto
  show ?thesis
    unfolding hit_rate_as_computed spec_hit_rate_def Let_def valid hits
    using no_string by simp
qed

text \<open>
  The spec's first example: ten games of exactly 20 points, line 15, direction \<open>over\<close>:
  the hit rate is 100.
\<close>

lemma hit_rate_example:
  "list_all (holds_number_or_null (stat_key_of (pb_stat_type example_prop))) ten_games
   \<and> calculate_hit_rate ten_games example_prop = Inr 100"
proof -
  have key: "stat_key_of (pb_stat_type example_prop) = ''pts''"
    by (simp add: example_prop_def stat_key_of_def STAT_TYPE_MAP_def lower_def lower_chr_def)
  have held: "list_all (holds_number_or_null (stat_key_of (pb_stat_type example_prop))) ten_games"
    unfolding key
    by (simp add: ten_games_def twenty_points_def holds_number_or_null_def)
  have "spec_hit_rate ten_games example_prop = 100"
    unfolding spec_hit_rate_def key
    by (simp add: example_prop_def ten_games_def twenty_points_def has_stat_value_def
        satisfies_direction_def Let_def)
  then show ?thesis using held hit_rate_when_key_held [OF held] by simp
qed

text \<open>A prop on the minutes, which the provider records as strings, makes the loop raise.\<close>

lemma hit_rate_raises_on_strings:
  "calculate_hit_rate ten_games minutes_over = Inl TypeError"
proof -
  have key: "stat_key_of (pb_stat_type minutes_over) = ''min''"
    by (simp add: minutes_over_def stat_key_of_def STAT_TYPE_MAP_def lower_def lower_chr_def)
  show ?thesis
    unfolding hit_rate_as_computed key
    by (simp add: compares_with_line_def minutes_over_def ten_games_def twenty_points_def
        stat_value_of_def dict_get_def is_string_def)
qed

text \<open>
  C4. The specified hit rate is the number of games whose stat value satisfies the
  direction against the line, divided by the number of games with a non-null value for
  that stat, times 100, and 0 when there is no such game.  The analyzer departs from it on
  games that lack the stat key: it reads them as the value 0 and counts them as valid.  For
  the prop \<open>turnovers under 2.5\<close> the stat key is \<open>turnovers\<close>, which none of the ten
  games holds (each records 3 turnovers under \<open>turnover\<close>): no game has a value for the
  stat, so the specified hit rate is 0, and the analyzer returns 100.
\<close>

theorem hit_rate_counts_games_without_value:
  "stat_key_of (pb_stat_type turnovers_under) = ''turnovers''
   \<and> length (filter (has_stat_value ''turnovers'') ten_games) = 0
   \<and> spec_hit_rate ten_games turnovers_under = 0
   \<and> calculate_hit_rate ten_games turnovers_under = Inr 100"
proof -
  have key: "stat_key_of (pb_stat_type turnovers_under) = ''turnovers''"
    by (simp add: turnovers_under_def stat_key_of_def STAT_TYPE_MAP_def lower_def lower_chr_def)
  have none: "length (filter (has_stat_value ''turnovers'') ten_games) = 0"
    by (simp add: ten_games_def twenty_points_def has_stat_value_def)
  have spec: "spec_hit_rate ten_games turnovers_under = 0"
    unfolding spec_hit_rate_def key Let_def using none by simp
  have code: "calculate_hit_rate ten_games turnovers_under = Inr 100"
    unfolding hit_rate_as_computed key
    by (simp add: compares_with_line_def turnovers_under_def ten_games_def twenty_points_def
        stat_value_of_def dict_get_def is_string_def is_hit_def)
  show ?thesis using key none spec code by simp
qed

subsection \<open>Over/under recommendation\<close>

lemma over_under_band_iff:
  "(over_under_band e c = ''strong_over'' \<longleftrightarrow> e > 4 \<and> c \<ge> 65)
   \<and> (over_under_band e c = ''lean_over'' \<longleftrightarrow>
        \<not> (e > 4 \<and> c \<ge> 65) \<and> e > 1.5 \<and> c \<ge> 50)
   \<and> (over_under_band e c = ''strong_under'' \<longleftrightarrow> e < -4 \<and> c \<ge> 65)
   \<and> (over_under_band e c = ''lean_under'' \<longleftrightarrow>
        \<not> (e < -4 \<and> c \<ge> 65) \<and> e < -1.5 \<and> c \<ge> 50)
   \<and> (over_under_band e c = ''neutral'' \<longleftrightarrow>
        \<not> (e > 1.5 \<and> c \<ge> 50) \<and> \<not> (e < -1.5 \<and> c \<ge> 50))"
  unfolding over_under_band_def by (simp; linarith?)

lemma over_under_band_example: "over_under_band 5 70 = ''strong_over''"
  by (simp add: over_under_band_def)

lemma over_under_rec_is_band:
  "ol_rec (over_under_locals projected_total variance reference_line season_avg_total
             home_s away_s pace)
   = over_under_band
       (ol_edge (over_under_locals projected_total variance reference_line season_avg_total
                   home_s away_s pace))
       (ol_confidence (over_under_locals projected_total variance reference_line
                         season_avg_total home_s away_s pace))"
  unfolding over_under_locals_def Let_def ou_locals.select_convs over_under_band_def
  by (rule refl)

text \<open>The line, the edge and the confidence of the function, from its arguments.\<close>

lemma over_under_line_value:
  "ol_line (over_under_locals projected_total variance reference_line season_avg_total
              home_s away_s pace)
   = (if truthy reference_line then or_zero reference_line
      else of_int (round_half_even (season_avg_total * 2)) / 2)"
  unfolding over_under_locals_def Let_def ou_locals.select_convs by (rule refl)

lemma over_under_edge_value:
  "ol_edge (over_under_locals projected_total variance reference_line season_avg_total
              home_s away_s pace)
   = projected_total
     - ol_line (over_under_locals projected_total variance reference_line season_avg_total
                  home_s away_s pace)"
  unfolding over_under_locals_def Let_def ou_locals.select_convs by (rule refl)

lemma over_under_confidence_value:
  "ol_confidence (over_under_locals projected_total variance reference_line season_avg_total
                    home_s away_s pace)
   = max 20 (min 90
       (50 + (if \<bar>pc_pace_deviation pace\<bar> < 5 then 10 else 0)
           + (if sp_shooting_variance_level home_s = ''normal'' then 5 else 0)
           + (if sp_shooting_variance_level away_s = ''normal'' then 5 else 0)
           + (if \<bar>ol_edge (over_under_locals projected_total variance reference_line
                            season_avg_total home_s away_s pace)\<bar> > 4 then 10
              else if \<bar>ol_edge (over_under_locals projected_total variance reference_line
                                 season_avg_total home_s away_s pace)\<bar> > 2 then 5
              else 0)))"
proof -
  have fifty: "(50.0::real) = 50" by simp
  show ?thesis
    unfolding over_under_locals_def Let_def ou_locals.select_convs fifty by (rule refl)
qed

lemma over_under_returned:
  "ou_recommendation (calculate_over_under projected_total variance reference_line
                        season_avg_total home_s away_s pace)
   = ol_rec (over_under_locals projected_total variance reference_line season_avg_total
               home_s away_s pace)
   \<and> ou_reference_line (calculate_over_under projected_total variance reference_line
                          season_avg_total home_s away_s pace)
     = Some (ol_line (over_under_locals projected_total variance reference_line
                        season_avg_total home_s away_s pace))
   \<and> ou_edge (calculate_over_under projected_total variance reference_line
                 season_avg_total home_s away_s pace)
     = py_round (ol_edge (over_under_locals projected_total variance reference_line
                            season_avg_total home_s away_s pace)) 1
   \<and> ou_confidence (calculate_over_under projected_total variance reference_line
                       season_avg_total home_s away_s pace)
     = py_round (ol_confidence (over_under_locals projected_total variance reference_line
                                  season_avg_total home_s away_s pace)) 1"
  by (simp add: calculate_over_under_def Let_def)

text \<open>
  C8.  Let \<open>line\<close> be the reference line of the call: the supplied one, or, when none is
  supplied (or it is 0), the season-average total rounded to the nearest half point.  Let
  \<open>edge\<close> be the projected total minus that line, and \<open>confidence\<close> the confidence the
  function builds: 50, plus 10 for a pace deviation under 5, plus 5 for each team shooting
  normally, plus 10 for an edge beyond 4 or 5 for one beyond 2, clamped to \<open>[20, 90]\<close>.
  Then the returned record holds that line, the edge and the confidence rounded to one
  decimal, and its recommendation follows the bands on the unrounded values:
  \<open>strong_over\<close> exactly when edge > 4 and confidence \<ge> 65; \<open>lean_over\<close> exactly when
  that band does not apply and edge > 1.5 and confidence \<ge> 50; \<open>strong_under\<close> and
  \<open>lean_under\<close> mirrored for negative edges; \<open>neutral\<close> otherwise.  In particular an
  edge of 5 with confidence 70 gives \<open>strong_over\<close>.
\<close>

theorem over_under_recommendation_bands:
  assumes "line = (if truthy reference_line then or_zero reference_line
                   else of_int (round_half_even (season_avg_total * 2)) / 2)"
    and "edge = projected_total - line"
    and "confidence
         = max 20 (min 90
             (50 + (if \<bar>pc_pace_deviation pace\<bar> < 5 then 10 else 0)
                 + (if sp_shooting_variance_level home_s = ''normal'' then 5 else 0)
                 + (if sp_shooting_variance_level away_s = ''normal'' then 5 else 0)
                 + (if \<bar>edge\<bar> > 4 then 10 else if \<bar>edge\<bar> > 2 then 5 else 0)))"
    and "result = calculate_over_under projected_total variance reference_line
                    season_avg_total home_s away_s pace"
  shows "ou_reference_line result = Some line
         \<and> ou_edge result = py_round edge 1
         \<and> ou_confidence result = py_round confidence 1
         \<and> ou_recommendation result = over_under_band edge confidence
         \<and> (ou_recommendation result = ''strong_over'' \<longleftrightarrow> edge > 4 \<and> confidence \<ge> 65)
         \<and> (ou_recommendation result = ''lean_over'' \<longleftrightarrow>
              \<not> (edge > 4 \<and> confidence \<ge> 65) \<and> edge > 1.5 \<and> confidence \<ge> 50)
         \<and> (ou_recommendation result = ''strong_under'' \<longleftrightarrow> edge < -4 \<and> confidence \<ge> 65)
         \<and> (ou_recommendation result = ''lean_under'' \<longleftrightarrow>
              \<not> (edge < -4 \<and> confidence \<ge> 65) \<and> edge < -1.5 \<and> confidence \<ge> 50)
         \<and> (ou_recommendation result = ''neutral'' \<longleftrightarrow>
              \<not> (edge > 1.5 \<and> confidence \<ge> 50) \<and> \<not> (edge < -1.5 \<and> confidence \<ge> 50))
         \<and> (edge = 5 \<and> confidence = 70 \<longrightarrow> ou_recommendation result = ''strong_over'')"
proof -
  let ?l = "over_under_locals projected_total variance reference_line season_avg_total
              home_s away_s pace"
  have l: "ol_line ?l = line"
    unfolding assms(1) by (rule over_under_line_value)
  have e: "ol_edge ?l = edge"
    unfolding assms(2) l [symmetric] by (rule over_under_edge_value)
  have c: "ol_confidence ?l = confidence"
    unfolding assms(3) e [symmetric] by (rule over_under_confidence_value)
  have returned: "ou_reference_line result = Some line \<and> ou_edge result = py_round edge 1
                  \<and> ou_confidence result = py_round confidence 1"
    unfolding assms(4) using over_under_returned
      [of projected_total variance reference_line season_avg_total home_s away_s pace]
    by (simp add: l e c)
  have band: "ou_recommendation result = over_under_band edge confidence"
    unfolding assms(4) using over_under_returned
      [of projected_total variance reference_line season_avg_total home_s away_s pace]
      over_under_rec_is_band
      [of projected_total variance reference_line season_avg_total home_s away_s pace]
    by (simp add: e c)
  have at_5_70: "edge = 5 \<and> confidence = 70 \<longrightarrow> ou_recommendation result = ''strong_over''"
    unfolding band using over_under_band_example by simp
  show ?thesis
    unfolding band
    using returned at_5_70 [unfolded band] over_under_band_iff [of edge confidence]
    by presburger
qed

text \<open>
  Three calls.  Projected total 230 against the supplied line 225, a pace on the expected
  value and both teams shooting hot: edge 5, confidence 70, \<open>strong_over\<close> (the spec's
  fourth example).  Projected total 200 against the same line: edge -25, confidence 70,
  \<open>strong_under\<close>.  Projected total 226 with no line supplied and a season-average total
  of 224.8: the line is 225, the edge 1, the confidence 60, and the call is \<open>neutral\<close>.
\<close>

theorem over_under_recommendation_bands_witness:
  "ou_reference_line (calculate_over_under 230 4 (Some 225) 225 hot_team hot_team steady_pace)
     = Some 225
   \<and> ou_edge (calculate_over_under 230 4 (Some 225) 225 hot_team hot_team steady_pace)
       = py_round 5 1
   \<and> ou_recommendation
        (calculate_over_under 230 4 (Some 225) 225 hot_team hot_team steady_pace)
       = ''strong_over''
   \<and> ou_recommendation
        (calculate_over_under 200 4 (Some 225) 225 hot_team hot_team steady_pace)
       = ''strong_under''
   \<and> ou_reference_line (calculate_over_under 226 4 None 224.8 hot_team hot_team steady_pace)
       = Some 225
   \<and> ou_recommendation (calculate_over_under 226 4 None 224.8 hot_team hot_team steady_pace)
       = ''neutral''"
proof -
  have supplied: "(225::real) = (if truthy (Some 225) then or_zero (Some 225)
                                  else of_int (round_half_even (225 * 2)) / 2)"
    by (simp add: truthy_def or_zero_def)
  have estimated: "(225::real) = (if truthy None then or_zero None
                                   else of_int (round_half_even (224.8 * 2)) / 2)"
    by (simp add: truthy_def round_half_even_def Let_def)
  have over_edge: "(5::real) = 230 - 225" by simp
  have under_edge: "(-25::real) = 200 - 225" by simp
  have small_edge: "(1::real) = 226 - 225" by simp
  have over_conf: "(70::real)
      = max 20 (min 90
          (50 + (if \<bar>pc_pace_deviation steady_pace\<bar> < 5 then 10 else 0)
              + (if sp_shooting_variance_level hot_team = ''normal'' then 5 else 0)
              + (if sp_shooting_variance_level hot_team = ''normal'' then 5 else 0)
              + (if \<bar>5::real\<bar> > 4 then 10 else if \<bar>5::real\<bar> > 2 then 5 else 0)))"
    by (simp add: steady_pace_def hot_team_def)
  have under_conf: "(70::real)
      = max 20 (min 90
          (50 + (if \<bar>pc_pace_deviation steady_pace\<bar> < 5 then 10 else 0)
              + (if sp_shooting_variance_level hot_team = ''normal'' then 5 else 0)
              + (if sp_shooting_variance_level hot_team = ''normal'' then 5 else 0)
              + (if \<bar>-25::real\<bar> > 4 then 10 else if \<bar>-25::real\<bar> > 2 then 5 else 0)))"
    by (simp add: steady_pace_def hot_team_def)
  have small_conf: "(60::real)
      = max 20 (min 90
          (50 + (if \<bar>pc_pace_deviation steady_pace\<bar> < 5 then 10 else 0)
              + (if sp_shooting_variance_level hot_team = ''normal'' then 5 else 0)
              + (if sp_shooting_variance_level hot_team = ''normal'' then 5 else 0)
              + (if \<bar>1::real\<bar> > 4 then 10 else if \<bar>1::real\<bar> > 2 then 5 else 0)))"
    by (simp add: steady_pace_def hot_team_def)
  have bands: "over_under_band 5 70 = ''strong_over''"
    "over_under_band (-25) 70 = ''strong_under''"
    "over_under_band 1 60 = ''neutral''"
    by (simp_all add: over_under_band_def)
  from over_under_recommendation_bands [OF supplied over_edge over_conf refl]
  have first: "ou_reference_line
                 (calculate_over_under 230 4 (Some 225) 225 hot_team hot_team steady_pace)
               = Some 225
     \<and> ou_edge (calculate_over_under 230 4 (Some 225) 225 hot_team hot_team steady_pace)
         = py_round 5 1
     \<and> ou_recommendation
          (calculate_over_under 230 4 (Some 225) 225 hot_team hot_team steady_pace)
         = ''strong_over''"
    by (simp only: bands)
  from over_under_recommendation_bands [OF supplied under_edge under_conf refl]
  have second: "ou_recommendation
                  (calculate_over_under 200 4 (Some 225) 225 hot_team hot_team steady_pace)
                = ''strong_under''"
    by (simp only: bands)
  from over_under_recommendation_bands [OF estimated small_edge small_conf refl]
  have third: "ou_reference_line
                 (calculate_over_under 226 4 None 224.8 hot_team hot_team steady_pace)
               = Some 225
     \<and> ou_recommendation (calculate_over_under 226 4 None 224.8 hot_team hot_team steady_pace)
         = ''neutral''"
    by (simp only: bands)
  show ?thesis using first second third by blast
qed

subsection \<open>The not-found failure of the halftime analysis\<close>

lemma halftime_not_found:
  "find (\<lambda>g. gd_game_id g = game_id) (client_get_todays_games w) = None \<Longrightarrow>
   get_halftime_analysis w cache game_id prop_lines
     = (Inl (ValueError (''Game '' @ game_id @ '' not found'')), cache)"
  by (simp add: get_halftime_analysis_def Let_def)

lemma halftime_found:
  "find (\<lambda>g. gd_game_id g = game_id) (client_get_todays_games w) = Some game_data \<Longrightarrow>
   \<exists>analysis. fst (get_halftime_analysis w cache game_id prop_lines) = Inr analysis
      \<and> ha_game_info analysis = game_data
      \<and> ha_home_ratings analysis
          = fst (get_team_ratings w cache (gd_home_team_id game_data)
                   (gd_home_team_abbr game_data))
      \<and> ha_enhanced_game_totals analysis
          = (case w_enhanced_totals w game_data (client_get_live_box_score w game_id)
                    (ha_home_ratings analysis) (ha_away_ratings analysis) of
               Inr enhanced_result \<Rightarrow> Some enhanced_result
             | Inl e \<Rightarrow> None)"
  unfolding get_halftime_analysis_def Let_def case_prod_beta by simp

lemma api_halftime_not_found:
  "find (\<lambda>g. gd_game_id g = game_id) (client_get_todays_games w) = None \<Longrightarrow>
   analyze_halftime_game w cache game_id
     = (Inl (HTTPException 404 (''Game '' @ game_id @ '' not found'')), cache)"
  by (simp add: analyze_halftime_game_def halftime_not_found)

lemma api_halftime_found:
  assumes "find (\<lambda>g. gd_game_id g = game_id) (client_get_todays_games w) = Some game_data"
  shows "\<exists>analysis. fst (analyze_halftime_game w cache game_id) = Inr analysis"
proof -
  obtain analysis where "fst (get_halftime_analysis w cache game_id None) = Inr analysis"
    using halftime_found [OF assms, of cache None] by blast
  then obtain c where "get_halftime_analysis w cache game_id None = (Inr analysis, c)"
    by (cases "get_halftime_analysis w cache game_id None") simp
  then have "fst (analyze_halftime_game w cache game_id) = Inr analysis"
    by (simp add: analyze_halftime_game_def)
  then show ?thesis by blast
qed

lemma failed_ratings_are_defaults:
  "cache team_id = None \<Longrightarrow> rf_advanced (w_team_ratings w team_id) = Inl e \<Longrightarrow>
   fst (get_team_ratings w cache team_id team_abbr) = default_TeamRatings team_id team_abbr"
  by (simp add: get_team_ratings_def Let_def)

lemma failed_season_stats_are_absent:
  "w_season_stats w player_id = Inl e \<Longrightarrow> client_get_player_season_stats w player_id = None"
  by (simp add: client_get_player_season_stats_def)

text \<open>
  C9. A game id with no matching snapshot among today's games makes
  \<open>get_halftime_analysis\<close> raise its \<open>ValueError\<close>, which the endpoint turns into the
  response 404 (not found), and this is its only failure: when a snapshot matches, the
  analysis returns a result, whatever the providers of season stats, team ratings,
  back-to-back information and the enhanced totals answer.  A failed ratings fetch leaves
  the default ratings, a failed season-stats fetch leaves the player without season data.
\<close>

theorem halftime_analysis_fails_only_when_not_found:
  "(find (\<lambda>g. gd_game_id g = game_id) (client_get_todays_games w) = None \<longrightarrow>
      get_halftime_analysis w cache game_id prop_lines
        = (Inl (ValueError (''Game '' @ game_id @ '' not found'')), cache)
      \<and> analyze_halftime_game w cache game_id
          = (Inl (HTTPException 404 (''Game '' @ game_id @ '' not found'')), cache))
   \<and> (\<forall>game_data.
        find (\<lambda>g. gd_game_id g = game_id) (client_get_todays_games w) = Some game_data \<longrightarrow>
        (\<exists>analysis. fst (get_halftime_analysis w cache game_id prop_lines) = Inr analysis
           \<and> ha_game_info analysis = game_data
           \<and> ha_home_ratings analysis
               = fst (get_team_ratings w cache (gd_home_team_id game_data)
                        (gd_home_team_abbr game_data)))
        \<and> (\<exists>analysis. fst (analyze_halftime_game w cache game_id) = Inr analysis))
   \<and> ((\<exists>e. fst (get_halftime_analysis w cache game_id prop_lines) = Inl e)
        \<longleftrightarrow> find (\<lambda>g. gd_game_id g = game_id) (client_get_todays_games w) = None)
   \<and> (\<forall>team_id team_abbr e.
        cache team_id = None \<and> rf_advanced (w_team_ratings w team_id) = Inl e \<longrightarrow>
        fst (get_team_ratings w cache team_id team_abbr)
          = default_TeamRatings team_id team_abbr)
   \<and> (\<forall>player_id e.
        w_season_stats w player_id = Inl e \<longrightarrow>
        client_get_player_season_stats w player_id = None)"
proof -
  have only: "(\<exists>e. fst (get_halftime_analysis w cache game_id prop_lines) = Inl e)
        \<longleftrightarrow> find (\<lambda>g. gd_game_id g = game_id) (client_get_todays_games w) = None"
  proof (cases "find (\<lambda>g. gd_game_id g = game_id) (client_get_todays_games w)")
    case None
    then show ?thesis by (simp add: halftime_not_found)
  next
    case (Some game_data)
    then show ?thesis using halftime_found [OF Some, of cache prop_lines] by auto
  qed
  have absent: "find (\<lambda>g. gd_game_id g = game_id) (client_get_todays_games w) = None \<longrightarrow>
      get_halftime_analysis w cache game_id prop_lines
        = (Inl (ValueError (''Game '' @ game_id @ '' not found'')), cache)
      \<and> analyze_halftime_game w cache game_id
          = (Inl (HTTPException 404 (''Game '' @ game_id @ '' not found'')), cache)"
    using halftime_not_found [of game_id w cache prop_lines]
      api_halftime_not_found [of game_id w cache]
    by simp
  have present: "\<forall>game_data.
        find (\<lambda>g. gd_game_id g = game_id) (client_get_todays_games w) = Some game_data \<longrightarrow>
        (\<exists>analysis. fst (get_halftime_analysis w cache game_id prop_lines) = Inr analysis
           \<and> ha_game_info analysis = game_data
           \<and> ha_home_ratings analysis
               = fst (get_team_ratings w cache (gd_home_team_id game_data)
                        (gd_home_team_abbr game_data)))
        \<and> (\<exists>analysis. fst (analyze_halftime_game w cache game_id) = Inr analysis)"
  proof (intro allI impI conjI)
    fix game_data
    assume f: "find (\<lambda>g. gd_game_id g = game_id) (client_get_todays_games w) = Some game_data"
    show "\<exists>analysis. fst (get_halftime_analysis w cache game_id prop_lines) = Inr analysis
           \<and> ha_game_info analysis = game_data
           \<and> ha_home_ratings analysis
               = fst (get_team_ratings w cache (gd_home_team_id game_data)
                        (gd_home_team_abbr game_data))"
      using halftime_found [OF f, of cache prop_lines] by blast
    show "\<exists>analysis. fst (analyze_halftime_game w cache game_id) = Inr analysis"
      using f by (rule api_halftime_found)
  qed
  have ratings: "\<forall>team_id team_abbr e.
        cache team_id = None \<and> rf_advanced (w_team_ratings w team_id) = Inl e \<longrightarrow>
        fst (get_team_ratings w cache team_id team_abbr)
          = default_TeamRatings team_id team_abbr"
    by (simp add: failed_ratings_are_defaults)
  have season: "\<forall>player_id e.
        w_season_stats w player_id = Inl e \<longrightarrow>
        client_get_player_season_stats w player_id = None"
    by (simp add: failed_season_stats_are_absent)
  from absent present only ratings season show ?thesis
    by (intro conjI)
qed

text \<open>
  A world whose season-stats, team-ratings, back-to-back and enhanced-totals providers all
  fail: the analysis of its live game returns, with the default ratings; an id that is not
  among its games is not found.
\<close>

theorem halftime_analysis_fails_only_when_not_found_witness:
  "find (\<lambda>g. gd_game_id g = ''0022400001'') (client_get_todays_games failing_world)
     = Some example_game
   \<and> (\<exists>analysis.
         fst (get_halftime_analysis failing_world Map.empty ''0022400001'' None) = Inr analysis
         \<and> ha_game_info analysis = example_game
         \<and> ha_home_ratings analysis = default_TeamRatings 1 ''HOM'')
   \<and> find (\<lambda>g. gd_game_id g = ''0022400002'') (client_get_todays_games failing_world) = None
   \<and> fst (analyze_halftime_game failing_world Map.empty ''0022400002'')
       = Inl (HTTPException 404 ''Game 0022400002 not found'')"
proof -
  have found: "find (\<lambda>g. gd_game_id g = ''0022400001'') (client_get_todays_games failing_world)
               = Some example_game"
    by (simp add: client_get_todays_games_def failing_world_def example_game_def)
  have missing:
    "find (\<lambda>g. gd_game_id g = ''0022400002'') (client_get_todays_games failing_world) = None"
    by (simp add: client_get_todays_games_def failing_world_def example_game_def)
  have home: "gd_home_team_id example_game = 1 \<and> gd_home_team_abbr example_game = ''HOM''"
    by (simp add: example_game_def)
  have failing: "rf_advanced (w_team_ratings failing_world 1) = Inl Timeout"
    by (simp add: failing_world_def)
  have defaults: "fst (get_team_ratings failing_world Map.empty 1 ''HOM'')
                  = default_TeamRatings 1 ''HOM''"
    using halftime_analysis_fails_only_when_not_found
        [of "''0022400001''" failing_world Map.empty None] failing by simp
  have ok: "\<exists>analysis.
         fst (get_halftime_analysis failing_world Map.empty ''0022400001'' None) = Inr analysis
         \<and> ha_game_info analysis = example_game
         \<and> ha_home_ratings analysis = default_TeamRatings 1 ''HOM''"
    using halftime_analysis_fails_only_when_not_found
        [of "''0022400001''" failing_world Map.empty None] found home defaults
    by auto
  have not_found: "fst (analyze_halftime_game failing_world Map.empty ''0022400002'')
       = Inl (HTTPException 404 ''Game 0022400002 not found'')"
    using halftime_analysis_fails_only_when_not_found
        [of "''0022400002''" failing_world Map.empty None] missing by simp
  show ?thesis using found ok missing not_found by blast
qed

end
